theory Spec2Isabelle
  imports Main "HOL-Library.AList"
begin

section \<open>Python values loaded from descriptors\<close>

text \<open>
  A descriptor is a YAML document. The loader hands the program ordinary Python values:
  \<open>None\<close>, booleans, integers, strings, lists and dictionaries (insertion ordered).
  The program never checks the type of most fields, so the entities keep these values as
  they are and every operation that Python would refuse on a value of the wrong type is an
  error of the model. Strings follow Python 3 (\<open>str\<close>); a character is a code point
  below 256. Floats and timestamps are not part of the model.
\<close>

datatype yaml =
    YNone
  | YBool bool
  | YInt int
  | YStr string
  | YList "yaml list"
  | YDict "(yaml \<times> yaml) list"

type_synonym ydict = "(yaml \<times> yaml) list"

datatype error =
    RequiredKeyMissing string ydict
  | NotAMapping string yaml
  | UnparsedYAML string ydict
  | InvalidOperator yaml string
  | WarningNotSinglePair
  | EmptyIdentifierSection string
  | IdentifiersNotStrings yaml string
  | IdentifierEmpty yaml string
  | CCEInvalid string string string
  | EmptyReferencesSection string
  | ReferencesNotStrings yaml string
  | ReferenceEmpty yaml string
  | SubElementError string string
  | UnsupportedPlatform yaml string
  | BenchmarkAndGroup string
  | MultipleBenchmarks
  | MultipleGroups
  | AttributeError
  | TypeError
  | KeyError
  | IndexError
  | UnpackError
  | OSError string
  | ParseError string
  | NotImplementedError

subsection \<open>Truth value, length, iteration, membership\<close>

fun py_truthy :: "yaml \<Rightarrow> bool" where
  "py_truthy YNone = False"
| "py_truthy (YBool b) = b"
| "py_truthy (YInt i) = (i \<noteq> 0)"
| "py_truthy (YStr s) = (s \<noteq> [])"
| "py_truthy (YList xs) = (xs \<noteq> [])"
| "py_truthy (YDict kvs) = (kvs \<noteq> [])"

fun py_len :: "yaml \<Rightarrow> error + nat" where
  "py_len (YStr s) = Inr (length s)"
| "py_len (YList xs) = Inr (length xs)"
| "py_len (YDict kvs) = Inr (length kvs)"
| "py_len _ = Inl TypeError"

text \<open>\<open>for x in v\<close>: a string yields its characters, a dictionary its keys.\<close>

fun py_iter :: "yaml \<Rightarrow> error + yaml list" where
  "py_iter (YStr s) = Inr (map (\<lambda>c. YStr [c]) s)"
| "py_iter (YList xs) = Inr xs"
| "py_iter (YDict kvs) = Inr (map fst kvs)"
| "py_iter _ = Inl TypeError"

text \<open>\<open>c in v\<close> for a one-character string \<open>c\<close>.\<close>

fun py_contains_char :: "char \<Rightarrow> yaml \<Rightarrow> error + bool" where
  "py_contains_char c (YStr s) = Inr (c \<in> set s)"
| "py_contains_char c (YList xs) = Inr (YStr [c] \<in> set xs)"
| "py_contains_char c (YDict kvs) = Inr (YStr [c] \<in> set (map fst kvs))"
| "py_contains_char c _ = Inl TypeError"

text \<open>\<open>v.items()\<close> exists on dictionaries only.\<close>

fun py_items :: "yaml \<Rightarrow> error + ydict" where
  "py_items (YDict kvs) = Inr kvs"
| "py_items _ = Inl AttributeError"

subsection \<open>Dictionaries\<close>

text \<open>
  The keys the program asks for are string literals; a key of another type never equals
  one. \<open>d[k] = v\<close> keeps the position of a key that is already there and appends a new
  one, which is \<^const>\<open>AList.update\<close>.
\<close>

definition dict_get :: "ydict \<Rightarrow> string \<Rightarrow> yaml option" where
  "dict_get d k = map_of d (YStr k)"

definition dict_del :: "ydict \<Rightarrow> string \<Rightarrow> ydict" where
  "dict_del d k = AList.delete (YStr k) d"

definition dict_pop :: "ydict \<Rightarrow> string \<Rightarrow> yaml \<Rightarrow> yaml \<times> ydict" where
  "dict_pop d k dflt =
     (case dict_get d k of None \<Rightarrow> (dflt, d) | Some v \<Rightarrow> (v, dict_del d k))"

text \<open>
  Modelled from the spec: \<open>required_key\<close> of the utilities module, which is not among the
  sources. The spec: required fields fail with a "missing key" error if absent. The
  argument is a key-value document; anything else has no keys to offer and fails as well.
\<close>

fun required_key :: "yaml \<Rightarrow> string \<Rightarrow> error + yaml" where
  "required_key (YDict d) k =
     (case dict_get d k of None \<Rightarrow> Inl (RequiredKeyMissing k d) | Some v \<Rightarrow> Inr v)"
| "required_key v k = Inl (NotAMapping k v)"

subsection \<open>Strings\<close>

text \<open>Python 3 \<open>str.isspace\<close> on the code points below 256.\<close>

definition py_isspace :: "char \<Rightarrow> bool" where
  "py_isspace c =
     (of_char c \<in> {9::nat, 10, 11, 12, 13, 28, 29, 30, 31, 32, 133, 160})"

definition py_strip :: "string \<Rightarrow> string" where
  "py_strip s = rev (dropWhile py_isspace (rev (dropWhile py_isspace s)))"

text \<open>\<open>str.lower\<close>: the ASCII capitals and the Latin-1 capitals move up by 32.\<close>

definition py_lower_char :: "char \<Rightarrow> char" where
  "py_lower_char c =
     (let n = (of_char c :: nat) in
      if (65 \<le> n \<and> n \<le> 90) \<or> (192 \<le> n \<and> n \<le> 222 \<and> n \<noteq> 215)
      then char_of (n + 32) else c)"

definition py_lower :: "string \<Rightarrow> string" where
  "py_lower s = map py_lower_char s"

text \<open>\<open>s.split(c)\<close> for a one-character separator: every occurrence splits.\<close>

fun py_split :: "char \<Rightarrow> string \<Rightarrow> string list" where
  "py_split c [] = [[]]"
| "py_split c (x # xs) =
     (if x = c then [] # py_split c xs
      else (case py_split c xs of
              [] \<Rightarrow> [[x]]
            | p # ps \<Rightarrow> (x # p) # ps))"

text \<open>\<open>s.split(c, 1)\<close>: at most one split, at the first occurrence.\<close>

definition py_split1 :: "char \<Rightarrow> string \<Rightarrow> string list" where
  "py_split1 c s =
     (if c \<in> set s then [takeWhile (\<lambda>x. x \<noteq> c) s, tl (dropWhile (\<lambda>x. x \<noteq> c) s)]
      else [s])"

text \<open>\<open>a, b = parts\<close> needs exactly two parts.\<close>

fun unpack2 :: "string list \<Rightarrow> error + string \<times> string" where
  "unpack2 [a, b] = Inr (a, b)"
| "unpack2 _ = Inl UnpackError"

text \<open>
  \<open>str(v)\<close>. The text of a list or a dictionary is built from \<open>repr\<close>, which the
  program never relies on: it is the parameter \<open>py_repr\<close>.
\<close>

fun digits_of :: "nat \<Rightarrow> string" where
  "digits_of n =
     (if n < 10 then [char_of (48 + n)]
      else digits_of (n div 10) @ [char_of (48 + n mod 10)])"

declare digits_of.simps [simp del]

definition str_of_int :: "int \<Rightarrow> string" where
  "str_of_int i = (if i < 0 then CHR ''-'' # digits_of (nat (- i)) else digits_of (nat i))"

fun py_str :: "(yaml \<Rightarrow> string) \<Rightarrow> yaml \<Rightarrow> string" where
  "py_str py_repr YNone = ''None''"
| "py_str py_repr (YBool b) = (if b then ''True'' else ''False'')"
| "py_str py_repr (YInt i) = str_of_int i"
| "py_str py_repr (YStr s) = s"
| "py_str py_repr v = py_repr v"

subsection \<open>Paths\<close>

text \<open>\<open>posixpath\<close>: \<open>basename\<close>, \<open>dirname\<close>, \<open>splitext\<close> and the two-argument \<open>join\<close>.\<close>

definition basename :: "string \<Rightarrow> string" where
  "basename p = rev (takeWhile (\<lambda>c. c \<noteq> CHR ''/'') (rev p))"

definition dirname :: "string \<Rightarrow> string" where
  "dirname p =
     (let head = rev (dropWhile (\<lambda>c. c \<noteq> CHR ''/'') (rev p)) in
      if head \<noteq> [] \<and> \<not> list_all (\<lambda>c. c = CHR ''/'') head
      then rev (dropWhile (\<lambda>c. c = CHR ''/'') (rev head))
      else head)"

text \<open>
  \<open>splitext\<close> splits at the last dot of the last component, unless only dots stand
  before it there (a leading dot starts a hidden file, not an extension).
\<close>

definition splitext :: "string \<Rightarrow> string \<times> string" where
  "splitext p =
     (let name = basename p;
          ext = rev (takeWhile (\<lambda>c. c \<noteq> CHR ''.'') (rev name));
          stem = take (length name - length ext - 1) name
      in if CHR ''.'' \<in> set name \<and> \<not> list_all (\<lambda>c. c = CHR ''.'') stem
         then (take (length p - length ext - 1) p, CHR ''.'' # ext)
         else (p, []))"

definition path_join :: "string \<Rightarrow> string \<Rightarrow> string" where
  "path_join a b =
     (if b \<noteq> [] \<and> hd b = CHR ''/'' then b
      else if a = [] \<or> last a = CHR ''/'' then a @ b
      else a @ ''/'' @ b)"


section \<open>Sequencing of steps that may raise\<close>

definition bind_err :: "error + 'a \<Rightarrow> ('a \<Rightarrow> error + 'b) \<Rightarrow> error + 'b" where
  "bind_err m f = (case m of Inl e \<Rightarrow> Inl e | Inr x \<Rightarrow> f x)"

lemma bind_err_simps [simp]:
  "bind_err (Inl e) f = Inl e"
  "bind_err (Inr x) f = f x"
  by (simp_all add: bind_err_def)

lemma bind_err_cong [fundef_cong]:
  "m = m' \<Longrightarrow> (\<And>x. m' = Inr x \<Longrightarrow> f x = f' x) \<Longrightarrow> bind_err m f = bind_err m' f'"
  by (cases m') (simp_all add: bind_err_def)

section \<open>XML elements\<close>

text \<open>
  An element of the tree library: tag, attributes (a dictionary, so insertion ordered and
  overwritten by key), text, tail and children. Attribute values and texts are whatever
  Python value the program stores; the library only looks at them when the tree is written.
\<close>

datatype xml =
  Element (x_tag: string) (x_attrib: "(string \<times> yaml) list") (x_text: yaml) (x_tail: yaml)
    (x_children: "xml list")

definition ET_Element :: "string \<Rightarrow> xml" where
  "ET_Element t = Element t [] YNone YNone []"

definition el_set :: "xml \<Rightarrow> string \<Rightarrow> yaml \<Rightarrow> xml" where
  "el_set e k v = Element (x_tag e) (AList.update k v (x_attrib e)) (x_text e) (x_tail e) (x_children e)"

definition el_set_text :: "xml \<Rightarrow> yaml \<Rightarrow> xml" where
  "el_set_text e v = Element (x_tag e) (x_attrib e) v (x_tail e) (x_children e)"

definition el_append :: "xml \<Rightarrow> xml \<Rightarrow> xml" where
  "el_append e c = Element (x_tag e) (x_attrib e) (x_text e) (x_tail e) (x_children e @ [c])"

text \<open>
  The program appends a child and goes on changing it through its own reference. The child
  is the parent's last one at that moment; \<open>el_sync_last\<close> writes the changed child back.
\<close>

definition el_sync_last :: "xml \<Rightarrow> xml \<Rightarrow> xml" where
  "el_sync_last e c =
     Element (x_tag e) (x_attrib e) (x_text e) (x_tail e) (butlast (x_children e) @ [c])"

definition ET_SubElement :: "xml \<Rightarrow> string \<Rightarrow> xml \<times> xml" where
  "ET_SubElement parent t = (el_append parent (ET_Element t), ET_Element t)"

section \<open>What the other modules provide\<close>

text \<open>
  The loader of descriptors, the rule-directory helpers, the CCE checker, the two constant
  tables and the XML parser live in other modules. They are parameters here. A loader or a
  parser that raises returns \<open>Inl\<close> or \<open>None\<close>; a loader that finds an empty document
  returns \<open>Inr None\<close>.
\<close>

record externals =
  open_and_expand :: "string \<Rightarrow> ydict option \<Rightarrow> error + ydict option"
  open_and_macro_expand :: "string \<Rightarrow> ydict option \<Rightarrow> error + ydict option"
  is_cce_valid :: "string \<Rightarrow> bool"
  get_rule_dir_id :: "string \<Rightarrow> string"
  get_rule_dir_yaml :: "string \<Rightarrow> string"
  is_rule_dir :: "string \<Rightarrow> bool"
  XCCDF_PLATFORM_TO_CPE :: "string \<Rightarrow> string option"
  PRODUCT_TO_CPE_MAPPING :: "string \<Rightarrow> string list option"
  ET_fromstring :: "string \<Rightarrow> xml option"
  ET_parse :: "string \<Rightarrow> xml option"
  py_repr :: "yaml \<Rightarrow> string"
  today :: string

section \<open>Helpers of the module\<close>

text \<open>
  \<open>add_sub_element\<close> wraps the data in the tag, parses the text as XML and appends the
  parsed element. It returns the parent and the new element.
\<close>

definition add_sub_element :: "externals \<Rightarrow> xml \<Rightarrow> string \<Rightarrow> yaml \<Rightarrow> error + xml \<times> xml" where
  "add_sub_element ext parent t data =
     (let ustr = ''<'' @ t @ ''>'' @ py_str (py_repr ext) data @ ''</'' @ t @ ''>'' in
      case ET_fromstring ext ustr of
        None \<Rightarrow> Inl (SubElementError (x_tag parent) ustr)
      | Some element \<Rightarrow> Inr (el_append parent element, element))"

text \<open>
  One \<open>warning\<close> element for each dictionary of the list: its text is the first value,
  its category the first key.
\<close>

fun add_warning_element :: "externals \<Rightarrow> xml \<Rightarrow> yaml \<Rightarrow> error + xml" where
  "add_warning_element ext element (YDict []) = Inl IndexError"
| "add_warning_element ext element (YDict ((k, v) # kvs)) =
     bind_err (add_sub_element ext element ''warning'' v) (\<lambda>(element, warning).
       Inr (el_sync_last element (el_set warning ''category'' k)))"
| "add_warning_element ext element w = Inl AttributeError"

fun add_warning_loop :: "externals \<Rightarrow> xml \<Rightarrow> yaml list \<Rightarrow> error + xml" where
  "add_warning_loop ext element [] = Inr element"
| "add_warning_loop ext element (warning_dict # rest) =
     bind_err (add_warning_element ext element warning_dict) (\<lambda>element.
       add_warning_loop ext element rest)"

definition add_warning_elements :: "externals \<Rightarrow> xml \<Rightarrow> yaml \<Rightarrow> error + xml" where
  "add_warning_elements ext element warnings =
     bind_err (py_iter warnings) (add_warning_loop ext element)"

text \<open>
  The check every parser with warnings makes:
  \<open>for warning_list in warnings: if len(warning_list) != 1: raise ValueError\<close>.
\<close>

fun check_warnings_loop :: "yaml list \<Rightarrow> error + unit" where
  "check_warnings_loop [] = Inr ()"
| "check_warnings_loop (warning_list # rest) =
     bind_err (py_len warning_list) (\<lambda>n.
       if n \<noteq> 1 then Inl WarningNotSinglePair else check_warnings_loop rest)"

definition check_warnings :: "yaml \<Rightarrow> error + unit" where
  "check_warnings warnings = bind_err (py_iter warnings) check_warnings_loop"

section \<open>Profile\<close>

record profile =
  p_id :: string
  p_title :: yaml
  p_description :: yaml
  p_extends :: yaml
  p_selections :: yaml

definition Profile_init :: "string \<Rightarrow> profile" where
  "Profile_init i =
     \<lparr>p_id = i, p_title = YStr [], p_description = YStr [], p_extends = YNone,
      p_selections = YList []\<rparr>"

definition Profile_from_yaml ::
  "externals \<Rightarrow> string \<Rightarrow> ydict option \<Rightarrow> error + profile option" where
  "Profile_from_yaml ext yaml_file env_yaml =
     bind_err (open_and_expand ext yaml_file env_yaml) (\<lambda>loaded.
     case loaded of
       None \<Rightarrow> Inr None
     | Some yaml_contents \<Rightarrow>
         let profile = Profile_init (fst (splitext (basename yaml_file))) in
         bind_err (required_key (YDict yaml_contents) ''title'') (\<lambda>title.
         let profile = profile\<lparr>p_title := title\<rparr>;
             yaml_contents = dict_del yaml_contents ''title'' in
         bind_err (required_key (YDict yaml_contents) ''description'') (\<lambda>description.
         let profile = profile\<lparr>p_description := description\<rparr>;
             yaml_contents = dict_del yaml_contents ''description'';
             (extends, yaml_contents) = dict_pop yaml_contents ''extends'' YNone;
             profile = profile\<lparr>p_extends := extends\<rparr> in
         bind_err (required_key (YDict yaml_contents) ''selections'') (\<lambda>selections.
         let profile = profile\<lparr>p_selections := selections\<rparr>;
             yaml_contents = dict_del yaml_contents ''selections'' in
         if yaml_contents \<noteq> [] then Inl (UnparsedYAML yaml_file yaml_contents)
         else Inr (Some profile)))))"

text \<open>
  The element of one selection. \<open>startswith\<close> exists on strings only; past it the
  selection is a string.
\<close>

fun Profile_selection_element :: "yaml \<Rightarrow> error + xml" where
  "Profile_selection_element (YStr selection) =
     (if take 1 selection = ''!'' then
        Inr (el_set (el_set (ET_Element ''select'') ''idref'' (YStr (drop 1 selection)))
               ''selected'' (YStr ''false''))
      else if CHR ''='' \<in> set selection then
        bind_err (unpack2 (py_split1 CHR ''='' selection)) (\<lambda>(value_id, selector).
          Inr (el_set (el_set (ET_Element ''refine-value'') ''idref'' (YStr value_id))
                 ''selector'' (YStr selector)))
      else
        Inr (el_set (el_set (ET_Element ''select'') ''idref'' (YStr selection))
               ''selected'' (YStr ''true'')))"
| "Profile_selection_element v = Inl AttributeError"

fun Profile_selections_loop :: "xml \<Rightarrow> yaml list \<Rightarrow> error + xml" where
  "Profile_selections_loop element [] = Inr element"
| "Profile_selections_loop element (selection # rest) =
     bind_err (Profile_selection_element selection) (\<lambda>directive.
       Profile_selections_loop (el_append element directive) rest)"

definition Profile_to_xml_element :: "externals \<Rightarrow> profile \<Rightarrow> error + xml" where
  "Profile_to_xml_element ext self =
     (let element = ET_Element ''Profile'';
          element = el_set element ''id'' (YStr (p_id self));
          element = (if py_truthy (p_extends self)
                     then el_set element ''extends'' (p_extends self) else element) in
      bind_err (add_sub_element ext element ''title'' (p_title self)) (\<lambda>(element, title).
      let element = el_sync_last element (el_set title ''override'' (YStr ''true'')) in
      bind_err (add_sub_element ext element ''description'' (p_description self))
        (\<lambda>(element, desc).
      let element = el_sync_last element (el_set desc ''override'' (YStr ''true'')) in
      bind_err (py_iter (p_selections self)) (\<lambda>selections.
      Profile_selections_loop element selections))))"

section \<open>Value\<close>

record "value" =
  v_id :: string
  v_title :: yaml
  v_description :: yaml
  v_type :: yaml
  v_operator :: yaml
  v_interactive :: bool
  v_options :: yaml
  v_warnings :: yaml

definition Value_init :: "string \<Rightarrow> value" where
  "Value_init i =
     \<lparr>v_id = i, v_title = YStr [], v_description = YStr [], v_type = YStr ''string'',
      v_operator = YStr ''equals'', v_interactive = False, v_options = YDict [],
      v_warnings = YList []\<rparr>"

definition possible_operators :: "string list" where
  "possible_operators =
     [''equals'', ''not equal'', ''greater than'', ''less than'', ''greater than or equal'',
      ''less than or equal'', ''pattern match'']"

text \<open>\<open>pop("interactive", "false").lower() == "true"\<close>: \<open>lower\<close> exists on strings only.\<close>

fun interactive_flag :: "yaml \<Rightarrow> error + bool" where
  "interactive_flag (YStr s) = Inr (py_lower s = ''true'')"
| "interactive_flag v = Inl AttributeError"

definition Value_from_yaml ::
  "externals \<Rightarrow> string \<Rightarrow> ydict option \<Rightarrow> error + value option" where
  "Value_from_yaml ext yaml_file env_yaml =
     bind_err (open_and_expand ext yaml_file env_yaml) (\<lambda>loaded.
     case loaded of
       None \<Rightarrow> Inr None
     | Some yaml_contents \<Rightarrow>
         let val = Value_init (fst (splitext (basename yaml_file))) in
         bind_err (required_key (YDict yaml_contents) ''title'') (\<lambda>title.
         let val = val\<lparr>v_title := title\<rparr>;
             yaml_contents = dict_del yaml_contents ''title'' in
         bind_err (required_key (YDict yaml_contents) ''description'') (\<lambda>description.
         let val = val\<lparr>v_description := description\<rparr>;
             yaml_contents = dict_del yaml_contents ''description'' in
         bind_err (required_key (YDict yaml_contents) ''type'') (\<lambda>type.
         let val = val\<lparr>v_type := type\<rparr>;
             yaml_contents = dict_del yaml_contents ''type'';
             (operator, yaml_contents) = dict_pop yaml_contents ''operator'' (YStr ''equals'');
             val = val\<lparr>v_operator := operator\<rparr> in
         if operator \<notin> set (map YStr possible_operators)
         then Inl (InvalidOperator operator yaml_file)
         else
         let (interactive, yaml_contents) =
               dict_pop yaml_contents ''interactive'' (YStr ''false'') in
         bind_err (interactive_flag interactive) (\<lambda>flag.
         let val = val\<lparr>v_interactive := flag\<rparr> in
         bind_err (required_key (YDict yaml_contents) ''options'') (\<lambda>options.
         let val = val\<lparr>v_options := options\<rparr>;
             yaml_contents = dict_del yaml_contents ''options'';
             (warnings, yaml_contents) = dict_pop yaml_contents ''warnings'' (YList []);
             val = val\<lparr>v_warnings := warnings\<rparr> in
         bind_err (check_warnings warnings) (\<lambda>_.
         if yaml_contents \<noteq> [] then Inl (UnparsedYAML yaml_file yaml_contents)
         else Inr (Some val))))))))"

text \<open>One \<open>value\<close> child for each option; the option named \<open>default\<close> has no selector.\<close>

fun Value_options_loop :: "externals \<Rightarrow> xml \<Rightarrow> ydict \<Rightarrow> xml" where
  "Value_options_loop ext val [] = val"
| "Value_options_loop ext val ((selector, option) # rest) =
     (let (val, value_small) = ET_SubElement val ''value'';
          value_small = (if selector \<noteq> YStr ''default''
                         then el_set value_small ''selector'' (YStr (py_str (py_repr ext) selector))
                         else value_small);
          value_small = el_set_text value_small (YStr (py_str (py_repr ext) option))
      in Value_options_loop ext (el_sync_last val value_small) rest)"

definition Value_to_xml_element :: "externals \<Rightarrow> value \<Rightarrow> error + xml" where
  "Value_to_xml_element ext self =
     (let val = ET_Element ''Value'';
          val = el_set val ''id'' (YStr (v_id self));
          val = el_set val ''type'' (v_type self);
          val = (if v_operator self \<noteq> YStr ''equals''
                 then el_set val ''operator'' (v_operator self) else val);
          val = (if v_interactive self then el_set val ''interactive'' (YStr ''true'') else val);
          (val, title) = ET_SubElement val ''title'';
          val = el_sync_last val (el_set_text title (v_title self)) in
      bind_err (add_sub_element ext val ''description'' (v_description self)) (\<lambda>(val, _).
      bind_err (add_warning_elements ext val (v_warnings self)) (\<lambda>val.
      bind_err (py_items (v_options self)) (\<lambda>items.
      Inr (Value_options_loop ext val items)))))"


section \<open>Rule\<close>

record rule =
  r_id :: string
  r_prodtype :: yaml
  r_title :: yaml
  r_description :: yaml
  r_rationale :: yaml
  r_severity :: yaml
  r_references :: yaml
  r_identifiers :: yaml
  r_ocil_clause :: yaml
  r_ocil :: yaml
  r_external_oval :: yaml
  r_warnings :: yaml
  r_platform :: yaml

definition Rule_init :: "string \<Rightarrow> rule" where
  "Rule_init i =
     \<lparr>r_id = i, r_prodtype = YStr ''all'', r_title = YStr [], r_description = YStr [],
      r_rationale = YStr [], r_severity = YStr ''unknown'', r_references = YDict [],
      r_identifiers = YDict [], r_ocil_clause = YNone, r_ocil = YNone,
      r_external_oval = YNone, r_warnings = YList [], r_platform = YNone\<rparr>"

text \<open>\<open>isinstance(v, str)\<close>.\<close>

fun is_str :: "yaml \<Rightarrow> bool" where
  "is_str (YStr s) = True"
| "is_str v = False"

fun validate_identifier :: "externals \<Rightarrow> string \<Rightarrow> yaml \<times> yaml \<Rightarrow> error + unit" where
  "validate_identifier ext yaml_file (YStr ident_type, YStr ident_val) =
     (if py_strip ident_val = [] then Inl (IdentifierEmpty (YStr ident_type) yaml_file)
      else if take 3 ident_type = ''cce'' \<and> \<not> is_cce_valid ext (''CCE-'' @ ident_val)
      then Inl (CCEInvalid ident_val ident_type yaml_file)
      else Inr ())"
| "validate_identifier ext yaml_file (ident_type, ident_val) =
     Inl (IdentifiersNotStrings ident_type yaml_file)"

fun validate_identifiers_loop :: "externals \<Rightarrow> string \<Rightarrow> ydict \<Rightarrow> error + unit" where
  "validate_identifiers_loop ext yaml_file [] = Inr ()"
| "validate_identifiers_loop ext yaml_file (item # rest) =
     bind_err (validate_identifier ext yaml_file item) (\<lambda>_.
       validate_identifiers_loop ext yaml_file rest)"

definition validate_identifiers :: "externals \<Rightarrow> rule \<Rightarrow> string \<Rightarrow> error + unit" where
  "validate_identifiers ext self yaml_file =
     (if r_identifiers self = YNone then Inl (EmptyIdentifierSection yaml_file)
      else bind_err (py_items (r_identifiers self)) (validate_identifiers_loop ext yaml_file))"

fun validate_reference :: "string \<Rightarrow> yaml \<times> yaml \<Rightarrow> error + unit" where
  "validate_reference yaml_file (YStr ref_type, YStr ref_val) =
     (if py_strip ref_val = [] then Inl (ReferenceEmpty (YStr ref_type) yaml_file)
      else Inr ())"
| "validate_reference yaml_file (ref_type, ref_val) =
     Inl (ReferencesNotStrings ref_type yaml_file)"

fun validate_references_loop :: "string \<Rightarrow> ydict \<Rightarrow> error + unit" where
  "validate_references_loop yaml_file [] = Inr ()"
| "validate_references_loop yaml_file (item # rest) =
     bind_err (validate_reference yaml_file item) (\<lambda>_.
       validate_references_loop yaml_file rest)"

definition validate_references :: "rule \<Rightarrow> string \<Rightarrow> error + unit" where
  "validate_references self yaml_file =
     (if r_references self = YNone then Inl (EmptyReferencesSection yaml_file)
      else bind_err (py_items (r_references self)) (validate_references_loop yaml_file))"

definition Rule_from_yaml ::
  "externals \<Rightarrow> string \<Rightarrow> ydict option \<Rightarrow> error + rule option" where
  "Rule_from_yaml ext yaml_file env_yaml =
     bind_err (open_and_macro_expand ext yaml_file env_yaml) (\<lambda>loaded.
     case loaded of
       None \<Rightarrow> Inr None
     | Some yaml_contents \<Rightarrow>
         let (rule_id, extension) = splitext (basename yaml_file);
             rule_id = (if rule_id = ''rule'' \<and> extension = ''.yml''
                        then get_rule_dir_id ext yaml_file else rule_id);
             rule = Rule_init rule_id;
             (prodtype, yaml_contents) = dict_pop yaml_contents ''prodtype'' (YStr ''all'');
             rule = rule\<lparr>r_prodtype := prodtype\<rparr> in
         bind_err (required_key (YDict yaml_contents) ''title'') (\<lambda>title.
         let rule = rule\<lparr>r_title := title\<rparr>;
             yaml_contents = dict_del yaml_contents ''title'' in
         bind_err (required_key (YDict yaml_contents) ''description'') (\<lambda>description.
         let rule = rule\<lparr>r_description := description\<rparr>;
             yaml_contents = dict_del yaml_contents ''description'' in
         bind_err (required_key (YDict yaml_contents) ''rationale'') (\<lambda>rationale.
         let rule = rule\<lparr>r_rationale := rationale\<rparr>;
             yaml_contents = dict_del yaml_contents ''rationale'' in
         bind_err (required_key (YDict yaml_contents) ''severity'') (\<lambda>severity.
         let rule = rule\<lparr>r_severity := severity\<rparr>;
             yaml_contents = dict_del yaml_contents ''severity'';
             (references, yaml_contents) = dict_pop yaml_contents ''references'' (YDict []);
             (identifiers, yaml_contents) = dict_pop yaml_contents ''identifiers'' (YDict []);
             (ocil_clause, yaml_contents) = dict_pop yaml_contents ''ocil_clause'' YNone;
             (ocil, yaml_contents) = dict_pop yaml_contents ''ocil'' YNone;
             (external_oval, yaml_contents) =
                dict_pop yaml_contents ''oval_external_content'' YNone;
             (warnings, yaml_contents) = dict_pop yaml_contents ''warnings'' (YList []);
             (platform, yaml_contents) = dict_pop yaml_contents ''platform'' YNone;
             rule = rule\<lparr>r_references := references, r_identifiers := identifiers,
                       r_ocil_clause := ocil_clause, r_ocil := ocil,
                       r_external_oval := external_oval, r_warnings := warnings,
                       r_platform := platform\<rparr> in
         bind_err (check_warnings warnings) (\<lambda>_.
         if yaml_contents \<noteq> [] then Inl (UnparsedYAML yaml_file yaml_contents)
         else
         bind_err (validate_identifiers ext rule yaml_file) (\<lambda>_.
         bind_err (validate_references rule yaml_file) (\<lambda>_.
         Inr (Some rule)))))))))"

text \<open>
  The loop over identifiers and the loop over references are the same code with another
  tag. A key with \<open>@\<close> (\<open>policy@product\<close>) gets an element of its own under the rule;
  the others become attributes of the shared element. The state of the loop is the rule
  element and the shared element.
\<close>

fun Rule_entry :: "string \<Rightarrow> xml \<times> xml \<Rightarrow> yaml \<times> yaml \<Rightarrow> error + xml \<times> xml" where
  "Rule_entry t (rule, main) (entry_type, entry_val) =
     bind_err (py_contains_char CHR ''@'' entry_type) (\<lambda>qualified.
       if qualified then
         (case entry_type of
            YStr s \<Rightarrow>
              bind_err (unpack2 (py_split CHR ''@'' s)) (\<lambda>(policy, product).
                let (rule, el) = ET_SubElement rule t;
                    el = el_set el policy entry_val;
                    el = el_set el ''prodtype'' (YStr product)
                in Inr (el_sync_last rule el, main))
          | _ \<Rightarrow> Inl AttributeError)
       else
         (case entry_type of
            YStr s \<Rightarrow> Inr (rule, el_set main s entry_val)
          | _ \<Rightarrow> Inl TypeError))"

fun Rule_entries_loop :: "string \<Rightarrow> xml \<times> xml \<Rightarrow> ydict \<Rightarrow> error + xml \<times> xml" where
  "Rule_entries_loop t st [] = Inr st"
| "Rule_entries_loop t st (item # rest) =
     bind_err (Rule_entry t st item) (\<lambda>st. Rule_entries_loop t st rest)"

definition Rule_entries :: "string \<Rightarrow> xml \<Rightarrow> yaml \<Rightarrow> error + xml" where
  "Rule_entries t rule entries =
     (let main = ET_Element t in
      bind_err (py_items entries) (\<lambda>items.
      bind_err (Rule_entries_loop t (rule, main) items) (\<lambda>(rule, main).
      Inr (if x_attrib main \<noteq> [] then el_append rule main else rule))))"

text \<open>
  The platform of a group or rule is looked up in the table of platforms. A key that is
  not in the table is the error of the program; a list or dictionary cannot be a key at all.
\<close>

fun platform_cpe :: "externals \<Rightarrow> yaml \<Rightarrow> string \<Rightarrow> error + string" where
  "platform_cpe ext (YStr p) ident =
     (case XCCDF_PLATFORM_TO_CPE ext p of
        None \<Rightarrow> Inl (UnsupportedPlatform (YStr p) ident)
      | Some cpe \<Rightarrow> Inr cpe)"
| "platform_cpe ext (YList xs) ident = Inl TypeError"
| "platform_cpe ext (YDict kvs) ident = Inl TypeError"
| "platform_cpe ext p ident = Inl (UnsupportedPlatform p ident)"

definition add_platform :: "externals \<Rightarrow> xml \<Rightarrow> yaml \<Rightarrow> string \<Rightarrow> error + xml" where
  "add_platform ext parent platform ident =
     (if py_truthy platform then
        (let (parent, platform_el) = ET_SubElement parent ''platform'' in
         bind_err (platform_cpe ext platform ident) (\<lambda>cpe.
         Inr (el_sync_last parent (el_set platform_el ''idref'' (YStr cpe)))))
      else Inr parent)"

definition Rule_check :: "rule \<Rightarrow> xml \<Rightarrow> xml" where
  "Rule_check self rule =
     (if py_truthy (r_external_oval self) then
        (let (rule, check) = ET_SubElement rule ''check'';
             check = el_set check ''system''
                       (YStr ''http://oval.mitre.org/XMLSchema/oval-definitions-5'');
             (check, external_content) = ET_SubElement check ''check-content-ref'';
             external_content = el_set external_content ''href'' (r_external_oval self);
             check = el_sync_last check external_content
         in el_sync_last rule check)
      else
        (let (rule, oval_ref) = ET_SubElement rule ''oval'';
             oval_ref = el_set oval_ref ''id'' (YStr (r_id self))
         in el_sync_last rule oval_ref))"

definition Rule_ocil :: "externals \<Rightarrow> rule \<Rightarrow> xml \<Rightarrow> error + xml" where
  "Rule_ocil ext self rule =
     (if py_truthy (r_ocil self) \<or> py_truthy (r_ocil_clause self) then
        bind_err (add_sub_element ext rule ''ocil''
                    (if py_truthy (r_ocil self) then r_ocil self else YStr []))
          (\<lambda>(rule, ocil).
             Inr (if py_truthy (r_ocil_clause self)
                  then el_sync_last rule (el_set ocil ''clause'' (r_ocil_clause self))
                  else rule))
      else Inr rule)"

definition Rule_to_xml_element :: "externals \<Rightarrow> rule \<Rightarrow> error + xml" where
  "Rule_to_xml_element ext self =
     (let rule = ET_Element ''Rule'';
          rule = el_set rule ''id'' (YStr (r_id self));
          rule = (if r_prodtype self \<noteq> YStr ''all''
                  then el_set rule ''prodtype'' (r_prodtype self) else rule);
          rule = el_set rule ''severity'' (r_severity self) in
      bind_err (add_sub_element ext rule ''title'' (r_title self)) (\<lambda>(rule, _).
      bind_err (add_sub_element ext rule ''description'' (r_description self)) (\<lambda>(rule, _).
      bind_err (add_sub_element ext rule ''rationale'' (r_rationale self)) (\<lambda>(rule, _).
      bind_err (Rule_entries ''ident'' rule (r_identifiers self)) (\<lambda>rule.
      bind_err (Rule_entries ''ref'' rule (r_references self)) (\<lambda>rule.
      let rule = Rule_check self rule in
      bind_err (Rule_ocil ext self rule) (\<lambda>rule.
      bind_err (add_warning_elements ext rule (r_warnings self)) (\<lambda>rule.
      add_platform ext rule (r_platform self) (r_id self)))))))))"


section \<open>Benchmark and Group\<close>

text \<open>
  A benchmark and a group hold values, groups and rules in dictionaries keyed by id. The
  groups of a group are whatever the tree assembler loaded in a subdirectory, so a
  benchmark can stand below a group: both are nodes of one tree. The fields that are not
  containers are records, the containers are the arguments of the node.
\<close>

record benchmark_fields =
  b_id :: string
  b_title :: yaml
  b_status :: yaml
  b_description :: yaml
  b_notice_id :: yaml
  b_notice_description :: yaml
  b_front_matter :: yaml
  b_rear_matter :: yaml
  b_cpes :: "string list"
  b_version :: string
  b_profiles :: "profile option list"
  b_bash_remediation_fns_group :: "xml option"

record group_fields =
  g_id :: string
  g_prodtype :: yaml
  g_title :: yaml
  g_description :: yaml
  g_warnings :: yaml
  g_platform :: yaml

datatype node =
    Benchmark benchmark_fields (n_values: "(string \<times> value) list")
      (n_groups: "(string \<times> node) list") (n_rules: "(string \<times> rule) list")
  | Group group_fields (n_values: "(string \<times> value) list")
      (n_groups: "(string \<times> node) list") (n_rules: "(string \<times> rule) list")

fun node_id :: "node \<Rightarrow> string" where
  "node_id (Benchmark b vs gs rs) = b_id b"
| "node_id (Group g vs gs rs) = g_id g"

subsection \<open>Adding children\<close>

text \<open>
  \<open>add_value\<close>, \<open>add_group\<close> and \<open>add_rule\<close> of both classes; the argument may be
  \<open>None\<close>. A group with a platform pushes it onto a child without one, so the child
  changes too: \<open>add_group\<close> and \<open>add_rule\<close> return the container and the child. A
  benchmark has no platform attribute, so reading it raises.
\<close>

fun add_value :: "node \<Rightarrow> value option \<Rightarrow> node" where
  "add_value self None = self"
| "add_value (Benchmark b vs gs rs) (Some val) =
     Benchmark b (AList.update (v_id val) val vs) gs rs"
| "add_value (Group g vs gs rs) (Some val) =
     Group g (AList.update (v_id val) val vs) gs rs"

fun add_group :: "node \<Rightarrow> node option \<Rightarrow> error + node \<times> node option" where
  "add_group self None = Inr (self, None)"
| "add_group (Benchmark b vs gs rs) (Some child) =
     Inr (Benchmark b vs (AList.update (node_id child) child gs) rs, Some child)"
| "add_group (Group g vs gs rs) (Some child) =
     (if py_truthy (g_platform g) then
        (case child of
           Benchmark cb cvs cgs crs \<Rightarrow> Inl AttributeError
         | Group cg cvs cgs crs \<Rightarrow>
             let child = (if \<not> py_truthy (g_platform cg)
                          then Group (cg\<lparr>g_platform := g_platform g\<rparr>) cvs cgs crs
                          else child)
             in Inr (Group g vs (AList.update (node_id child) child gs) rs, Some child))
      else Inr (Group g vs (AList.update (node_id child) child gs) rs, Some child))"

fun add_rule :: "node \<Rightarrow> rule option \<Rightarrow> node \<times> rule option" where
  "add_rule self None = (self, None)"
| "add_rule (Benchmark b vs gs rs) (Some rule) =
     (Benchmark b vs gs (AList.update (r_id rule) rule rs), Some rule)"
| "add_rule (Group g vs gs rs) (Some rule) =
     (let rule = (if py_truthy (g_platform g) \<and> \<not> py_truthy (r_platform rule)
                  then rule\<lparr>r_platform := g_platform g\<rparr> else rule)
      in (Group g vs gs (AList.update (r_id rule) rule rs), Some rule))"

subsection \<open>Construction and parsing\<close>

definition conditional_clause :: "value" where
  "conditional_clause =
     (Value_init ''conditional_clause'')
       \<lparr>v_title := YStr ''A conditional clause for check statements.'',
        v_description := YStr ''A conditional clause for check statements.'',
        v_type := YStr ''string'',
        v_options := YDict [(YStr [], YStr ''This is a placeholder'')]\<rparr>"

definition Benchmark_init :: "string \<Rightarrow> node" where
  "Benchmark_init i =
     add_value
       (Benchmark
          \<lparr>b_id = i, b_title = YStr [], b_status = YStr [], b_description = YStr [],
           b_notice_id = YStr [], b_notice_description = YStr [], b_front_matter = YStr [],
           b_rear_matter = YStr [], b_cpes = [], b_version = ''0.1'', b_profiles = [],
           b_bash_remediation_fns_group = None\<rparr> [] [] [])
       (Some conditional_clause)"

definition Group_init :: "string \<Rightarrow> node" where
  "Group_init i =
     Group \<lparr>g_id = i, g_prodtype = YStr ''all'', g_title = YStr [], g_description = YStr [],
            g_warnings = YList [], g_platform = YNone\<rparr> [] [] []"

text \<open>
  \<open>PRODUCT_TO_CPE_MAPPING[product_yaml["product"]]\<close>: both lookups raise on a missing
  key; a list or dictionary cannot be looked up.
\<close>

definition product_cpes :: "externals \<Rightarrow> ydict \<Rightarrow> error + string list" where
  "product_cpes ext product_yaml =
     (case dict_get product_yaml ''product'' of
        None \<Rightarrow> Inl KeyError
      | Some (YStr p) \<Rightarrow>
          (case PRODUCT_TO_CPE_MAPPING ext p of None \<Rightarrow> Inl KeyError | Some cpes \<Rightarrow> Inr cpes)
      | Some (YList xs) \<Rightarrow> Inl TypeError
      | Some (YDict kvs) \<Rightarrow> Inl TypeError
      | Some v \<Rightarrow> Inl KeyError)"

text \<open>
  The notice is a dictionary inside the document. Its two keys are deleted in place, and the
  notice leaves the document only when nothing else is in it; otherwise what remains of it
  stays in the document and the document is not empty at the end.
\<close>

definition Benchmark_from_yaml ::
  "externals \<Rightarrow> string \<Rightarrow> string \<Rightarrow> ydict option \<Rightarrow> error + node option" where
  "Benchmark_from_yaml ext yaml_file ident product_yaml =
     bind_err (open_and_macro_expand ext yaml_file product_yaml) (\<lambda>loaded.
     case loaded of
       None \<Rightarrow> Inr None
     | Some yaml_contents \<Rightarrow>
        (case Benchmark_init ident of
           Group g vs gs rs \<Rightarrow> Inl TypeError
         | Benchmark benchmark vs gs rs \<Rightarrow>
         bind_err (required_key (YDict yaml_contents) ''title'') (\<lambda>title.
         let benchmark = benchmark\<lparr>b_title := title\<rparr>;
             yaml_contents = dict_del yaml_contents ''title'' in
         bind_err (required_key (YDict yaml_contents) ''status'') (\<lambda>status.
         let benchmark = benchmark\<lparr>b_status := status\<rparr>;
             yaml_contents = dict_del yaml_contents ''status'' in
         bind_err (required_key (YDict yaml_contents) ''description'') (\<lambda>description.
         let benchmark = benchmark\<lparr>b_description := description\<rparr>;
             yaml_contents = dict_del yaml_contents ''description'' in
         bind_err (required_key (YDict yaml_contents) ''notice'') (\<lambda>notice_contents.
         bind_err (required_key notice_contents ''id'') (\<lambda>notice_id.
         bind_err (py_items notice_contents) (\<lambda>notice_items.
         let benchmark = benchmark\<lparr>b_notice_id := notice_id\<rparr>;
             notice_items = dict_del notice_items ''id'' in
         bind_err (required_key (YDict notice_items) ''description'') (\<lambda>notice_description.
         let benchmark = benchmark\<lparr>b_notice_description := notice_description\<rparr>;
             notice_items = dict_del notice_items ''description'';
             yaml_contents = (if notice_items = [] then dict_del yaml_contents ''notice''
                              else AList.update (YStr ''notice'') (YDict notice_items)
                                     yaml_contents) in
         bind_err (required_key (YDict yaml_contents) ''front-matter'') (\<lambda>front_matter.
         let benchmark = benchmark\<lparr>b_front_matter := front_matter\<rparr>;
             yaml_contents = dict_del yaml_contents ''front-matter'' in
         bind_err (required_key (YDict yaml_contents) ''rear-matter'') (\<lambda>rear_matter.
         let benchmark = benchmark\<lparr>b_rear_matter := rear_matter\<rparr>;
             yaml_contents = dict_del yaml_contents ''rear-matter'' in
         bind_err (required_key (YDict yaml_contents) ''version'') (\<lambda>version.
         let benchmark = benchmark\<lparr>b_version := py_str (py_repr ext) version\<rparr>;
             yaml_contents = dict_del yaml_contents ''version'' in
         if yaml_contents \<noteq> [] then Inl (UnparsedYAML yaml_file yaml_contents)
         else
           (case product_yaml of
              None \<Rightarrow> Inr (Some (Benchmark benchmark vs gs rs))
            | Some py \<Rightarrow>
                if py = [] then Inr (Some (Benchmark benchmark vs gs rs))
                else bind_err (product_cpes ext py) (\<lambda>cpes.
                       Inr (Some (Benchmark (benchmark\<lparr>b_cpes := cpes\<rparr>) vs gs rs))))))))))))))))"

definition Group_from_yaml ::
  "externals \<Rightarrow> string \<Rightarrow> ydict option \<Rightarrow> error + node option" where
  "Group_from_yaml ext yaml_file env_yaml =
     bind_err (open_and_macro_expand ext yaml_file env_yaml) (\<lambda>loaded.
     case loaded of
       None \<Rightarrow> Inr None
     | Some yaml_contents \<Rightarrow>
         let group_id = basename (dirname yaml_file);
             grp = \<lparr>g_id = group_id, g_prodtype = YStr ''all'', g_title = YStr [],
                      g_description = YStr [], g_warnings = YList [], g_platform = YNone\<rparr>;
             (prodtype, yaml_contents) = dict_pop yaml_contents ''prodtype'' (YStr ''all'');
             grp = grp\<lparr>g_prodtype := prodtype\<rparr> in
         bind_err (required_key (YDict yaml_contents) ''title'') (\<lambda>title.
         let grp = grp\<lparr>g_title := title\<rparr>;
             yaml_contents = dict_del yaml_contents ''title'' in
         bind_err (required_key (YDict yaml_contents) ''description'') (\<lambda>description.
         let grp = grp\<lparr>g_description := description\<rparr>;
             yaml_contents = dict_del yaml_contents ''description'';
             (warnings, yaml_contents) = dict_pop yaml_contents ''warnings'' (YList []);
             (platform, yaml_contents) = dict_pop yaml_contents ''platform'' YNone;
             grp = grp\<lparr>g_warnings := warnings, g_platform := platform\<rparr> in
         bind_err (check_warnings warnings) (\<lambda>_.
         if yaml_contents \<noteq> [] then Inl (UnparsedYAML yaml_file yaml_contents)
         else Inr (Some (Group grp [] [] []))))))"


subsection \<open>Rendering\<close>

fun Benchmark_platforms :: "xml \<Rightarrow> string list \<Rightarrow> xml" where
  "Benchmark_platforms root [] = root"
| "Benchmark_platforms root (idref # rest) =
     (let (root, plat) = ET_SubElement root ''platform'';
          root = el_sync_last root (el_set plat ''idref'' (YStr idref))
      in Benchmark_platforms root rest)"

fun Benchmark_profiles :: "externals \<Rightarrow> xml \<Rightarrow> profile option list \<Rightarrow> error + xml" where
  "Benchmark_profiles ext root [] = Inr root"
| "Benchmark_profiles ext root (None # rest) = Benchmark_profiles ext root rest"
| "Benchmark_profiles ext root (Some profile # rest) =
     bind_err (Profile_to_xml_element ext profile) (\<lambda>el.
       Benchmark_profiles ext (el_append root el) rest)"

fun values_loop :: "externals \<Rightarrow> xml \<Rightarrow> (string \<times> value) list \<Rightarrow> error + xml" where
  "values_loop ext parent [] = Inr parent"
| "values_loop ext parent ((k, val) # rest) =
     bind_err (Value_to_xml_element ext val) (\<lambda>el. values_loop ext (el_append parent el) rest)"

fun rules_loop :: "externals \<Rightarrow> xml \<Rightarrow> (string \<times> rule) list \<Rightarrow> error + xml" where
  "rules_loop ext parent [] = Inr parent"
| "rules_loop ext parent ((k, rule) # rest) =
     bind_err (Rule_to_xml_element ext rule) (\<lambda>el. rules_loop ext (el_append parent el) rest)"

text \<open>The benchmark element up to the point where its groups are rendered.\<close>

definition Benchmark_head ::
  "externals \<Rightarrow> benchmark_fields \<Rightarrow> (string \<times> value) list \<Rightarrow> error + xml" where
  "Benchmark_head ext self vs =
     (let root = ET_Element ''Benchmark'';
          root = el_set root ''xmlns:xsi'' (YStr ''http://www.w3.org/2001/XMLSchema-instance'');
          root = el_set root ''xmlns:xhtml'' (YStr ''http://www.w3.org/1999/xhtml'');
          root = el_set root ''xmlns:dc'' (YStr ''http://purl.org/dc/elements/1.1/'');
          root = el_set root ''id'' (YStr ''product-name'');
          root = el_set root ''xsi:schemaLocation''
                   (YStr ''http://checklists.nist.gov/xccdf/1.1 xccdf-1.1.4.xsd'');
          root = el_set root ''style'' (YStr ''SCAP_1.1'');
          root = el_set root ''resolved'' (YStr ''false'');
          root = el_set root ''xml:lang'' (YStr ''en-US'');
          (root, status) = ET_SubElement root ''status'';
          status = el_set status ''date'' (YStr (today ext));
          status = el_set_text status (b_status self);
          root = el_sync_last root status in
      bind_err (add_sub_element ext root ''title'' (b_title self)) (\<lambda>(root, _).
      bind_err (add_sub_element ext root ''description'' (b_description self)) (\<lambda>(root, _).
      bind_err (add_sub_element ext root ''notice'' (b_notice_description self))
        (\<lambda>(root, notice).
      let root = el_sync_last root (el_set notice ''id'' (b_notice_id self)) in
      bind_err (add_sub_element ext root ''front-matter'' (b_front_matter self)) (\<lambda>(root, _).
      bind_err (add_sub_element ext root ''rear-matter'' (b_rear_matter self)) (\<lambda>(root, _).
      let root = Benchmark_platforms root (b_cpes self);
          (root, version) = ET_SubElement root ''version'';
          root = el_sync_last root (el_set_text version (YStr (b_version self)));
          (root, _) = ET_SubElement root ''metadata'' in
      bind_err (Benchmark_profiles ext root (b_profiles self)) (\<lambda>root.
      bind_err (values_loop ext root vs) (\<lambda>root.
      Inr (case b_bash_remediation_fns_group self of
             None \<Rightarrow> root
           | Some fns \<Rightarrow> el_append root fns)))))))))"

text \<open>The group element up to the point where its groups are rendered.\<close>

definition Group_head ::
  "externals \<Rightarrow> group_fields \<Rightarrow> (string \<times> value) list \<Rightarrow> error + xml" where
  "Group_head ext self vs =
     (let grp = ET_Element ''Group'';
          grp = el_set grp ''id'' (YStr (g_id self));
          grp = (if g_prodtype self \<noteq> YStr ''all''
                 then el_set grp ''prodtype'' (g_prodtype self) else grp);
          (grp, title) = ET_SubElement grp ''title'';
          grp = el_sync_last grp (el_set_text title (g_title self)) in
      bind_err (add_sub_element ext grp ''description'' (g_description self)) (\<lambda>(grp, _).
      bind_err (add_warning_elements ext grp (g_warnings self)) (\<lambda>grp.
      bind_err (add_platform ext grp (g_platform self) (g_id self)) (\<lambda>grp.
      values_loop ext grp vs))))"

fun to_xml_element :: "externals \<Rightarrow> node \<Rightarrow> error + xml"
  and groups_loop :: "externals \<Rightarrow> xml \<Rightarrow> (string \<times> node) list \<Rightarrow> error + xml" where
  "to_xml_element ext (Benchmark self vs gs rs) =
     bind_err (Benchmark_head ext self vs) (\<lambda>root.
     bind_err (groups_loop ext root gs) (\<lambda>root.
     rules_loop ext root rs))"
| "to_xml_element ext (Group self vs gs rs) =
     bind_err (Group_head ext self vs) (\<lambda>grp.
     bind_err (groups_loop ext grp gs) (\<lambda>grp.
     rules_loop ext grp rs))"
| "groups_loop ext parent [] = Inr parent"
| "groups_loop ext parent ((k, g) # rest) =
     bind_err (to_xml_element ext g) (\<lambda>el. groups_loop ext (el_append parent el) rest)"

section \<open>Files, output streams and the tree assembler\<close>

text \<open>
  What the program does to the outside: lines printed, messages on the error stream, and
  trees written to files. An exception leaves these as they were when it was raised.
\<close>

record world =
  stdout :: "string list"
  stderr :: "string list"
  written :: "(string \<times> xml) list"

definition bind_io ::
  "(error + 'a) \<times> world \<Rightarrow> ('a \<Rightarrow> world \<Rightarrow> (error + 'b) \<times> world) \<Rightarrow> (error + 'b) \<times> world" where
  "bind_io m f = (case m of (Inl e, w) \<Rightarrow> (Inl e, w) | (Inr x, w) \<Rightarrow> f x w)"

lemma bind_io_simps [simp]:
  "bind_io (Inl e, w) f = (Inl e, w)"
  "bind_io (Inr x, w) f = f x w"
  by (simp_all add: bind_io_def)

lemma bind_io_cong [fundef_cong]:
  "m = m' \<Longrightarrow> (\<And>x w. m' = (Inr x, w) \<Longrightarrow> f x w = f' x w) \<Longrightarrow> bind_io m f = bind_io m' f'"
  by (cases m'; cases "fst m'") (auto simp: bind_io_def)

definition lift_io :: "error + 'a \<Rightarrow> world \<Rightarrow> (error + 'a) \<times> world" where
  "lift_io r w = (r, w)"

definition print_line :: "string \<Rightarrow> world \<Rightarrow> world" where
  "print_line s w = w\<lparr>stdout := stdout w @ [s]\<rparr>"

definition stderr_write :: "string \<Rightarrow> world \<Rightarrow> world" where
  "stderr_write s w = w\<lparr>stderr := stderr w @ [s]\<rparr>"

text \<open>
  A directory is a list of named entries, in the order \<open>os.listdir\<close> gives them. What a
  descriptor file contains is the loader's business.
\<close>

datatype fsnode = FFile | FOther | FDir "(string \<times> fsnode) list"

fun isdir :: "fsnode \<Rightarrow> bool" where
  "isdir (FDir entries) = True"
| "isdir n = False"

fun isfile :: "fsnode \<Rightarrow> bool" where
  "isfile FFile = True"
| "isfile n = False"

text \<open>
  \<open>to_file\<close>: render the node and write the tree. Writing is the library's; the model
  records which tree went to which file.
\<close>

definition to_file :: "externals \<Rightarrow> node \<Rightarrow> string \<Rightarrow> world \<Rightarrow> (error + unit) \<times> world" where
  "to_file ext self file_name w =
     (case to_xml_element ext self of
        Inl e \<Rightarrow> (Inl e, w)
      | Inr root \<Rightarrow> (Inr (), w\<lparr>written := written w @ [(file_name, root)]\<rparr>))"


subsection \<open>Profiles and remediation functions of a benchmark\<close>

text \<open>
  The arguments the assembler hands down unchanged. The profiles directory is another
  place of the file system: \<open>a_profiles_entries\<close> is what \<open>os.listdir\<close> finds there
  (\<open>None\<close>: it raises).
\<close>

record build_args =
  a_action :: string
  a_profiles_dir :: "string option"
  a_profiles_entries :: "(string \<times> fsnode) list option"
  a_bash_remediation_fns :: string
  a_output_file :: string
  a_env_yaml :: "ydict option"

text \<open>The truth value of a path that may be \<open>None\<close>.\<close>

fun path_truthy :: "string option \<Rightarrow> bool" where
  "path_truthy None = False"
| "path_truthy (Some p) = (p \<noteq> [])"

fun add_profiles_loop ::
  "externals \<Rightarrow> string \<Rightarrow> string \<Rightarrow> ydict option \<Rightarrow> profile option list \<Rightarrow>
   (string \<times> fsnode) list \<Rightarrow> world \<Rightarrow> (error + profile option list) \<times> world" where
  "add_profiles_loop ext act dir_path env profiles [] w = (Inr profiles, w)"
| "add_profiles_loop ext act dir_path env profiles ((dir_item, n) # rest) w =
     (let dir_item_path = path_join dir_path dir_item in
      if \<not> isfile n then add_profiles_loop ext act dir_path env profiles rest w
      else
        let extension = snd (splitext (basename dir_item_path)) in
        if extension \<noteq> ''.profile'' then
          add_profiles_loop ext act dir_path env profiles rest
            (stderr_write
               (''Encountered file '' @ [CHR 0x27] @ dir_item @ [CHR 0x27] @
                '' while looking for profiles, extension '' @ [CHR 0x27] @ extension @
                [CHR 0x27] @ '' is unknown. Skipping..'' @ [CHR 0x0A]) w)
        else
          (case Profile_from_yaml ext dir_item_path env of
             Inl e \<Rightarrow> (Inl e, w)
           | Inr profile \<Rightarrow>
               add_profiles_loop ext act dir_path env (profiles @ [profile]) rest
                 (if act = ''list-inputs'' then print_line dir_item_path w else w)))"

fun add_profiles_from_dir ::
  "externals \<Rightarrow> node \<Rightarrow> string \<Rightarrow> string \<Rightarrow> (string \<times> fsnode) list option \<Rightarrow>
   ydict option \<Rightarrow> world \<Rightarrow> (error + node) \<times> world" where
  "add_profiles_from_dir ext (Benchmark self vs gs rs) act dir_path None env w =
     (Inl (OSError dir_path), w)"
| "add_profiles_from_dir ext (Benchmark self vs gs rs) act dir_path (Some entries) env w =
     bind_io (add_profiles_loop ext act dir_path env (b_profiles self) entries w) (\<lambda>profiles w.
       (Inr (Benchmark (self\<lparr>b_profiles := profiles\<rparr>) vs gs rs), w))"
| "add_profiles_from_dir ext (Group self vs gs rs) act dir_path entries env w =
     (Inl AttributeError, w)"

fun add_bash_remediation_fns_from_file ::
  "externals \<Rightarrow> node \<Rightarrow> string \<Rightarrow> string \<Rightarrow> world \<Rightarrow> (error + node) \<times> world" where
  "add_bash_remediation_fns_from_file ext (Benchmark self vs gs rs) act file_path w =
     (if act = ''list-inputs'' then (Inr (Benchmark self vs gs rs), print_line file_path w)
      else
        (case ET_parse ext file_path of
           None \<Rightarrow> (Inl (ParseError file_path), w)
         | Some root \<Rightarrow>
             (Inr (Benchmark (self\<lparr>b_bash_remediation_fns_group := Some root\<rparr>) vs gs rs), w)))"
| "add_bash_remediation_fns_from_file ext (Group self vs gs rs) act file_path w =
     (Inl AttributeError, w)"

subsection \<open>Loading the node of a directory\<close>

text \<open>
  A benchmark descriptor that loads as an empty document gives \<open>None\<close>, and the calls on
  it that follow raise.
\<close>

definition load_benchmark ::
  "externals \<Rightarrow> build_args \<Rightarrow> string \<Rightarrow> world \<Rightarrow> (error + node option) \<times> world" where
  "load_benchmark ext args benchmark_file w =
     bind_io (lift_io (Benchmark_from_yaml ext benchmark_file ''product-name'' (a_env_yaml args)) w)
       (\<lambda>loaded w.
     bind_io
       (case a_profiles_dir args of
          None \<Rightarrow> (Inr loaded, w)
        | Some profiles_dir \<Rightarrow>
            if profiles_dir = [] then (Inr loaded, w)
            else
              (case loaded of
                 None \<Rightarrow> (Inl AttributeError, w)
               | Some b \<Rightarrow>
                   bind_io (add_profiles_from_dir ext b (a_action args) profiles_dir
                              (a_profiles_entries args) (a_env_yaml args) w)
                     (\<lambda>b w. (Inr (Some b), w))))
       (\<lambda>loaded w.
     (case loaded of
        None \<Rightarrow> (Inl AttributeError, w)
      | Some b \<Rightarrow>
          bind_io (add_bash_remediation_fns_from_file ext b (a_action args)
                     (a_bash_remediation_fns args) w)
            (\<lambda>b w.
               (Inr (Some b),
                if a_action args = ''list-inputs'' then print_line benchmark_file w else w)))))"

definition load_benchmark_or_group ::
  "externals \<Rightarrow> build_args \<Rightarrow> string option \<Rightarrow> string option \<Rightarrow> string \<Rightarrow> world \<Rightarrow>
   (error + node option) \<times> world" where
  "load_benchmark_or_group ext args group_file benchmark_file guide_directory w =
     (if path_truthy group_file \<and> path_truthy benchmark_file
      then (Inl (BenchmarkAndGroup guide_directory), w)
      else
        bind_io
          (case benchmark_file of
             None \<Rightarrow> (Inr None, w)
           | Some bf \<Rightarrow> if bf = [] then (Inr None, w) else load_benchmark ext args bf w)
          (\<lambda>grp w.
             case group_file of
               None \<Rightarrow> (Inr grp, w)
             | Some gf \<Rightarrow>
                 if gf = [] then (Inr grp, w)
                 else
                   bind_io (lift_io (Group_from_yaml ext gf (a_env_yaml args)) w) (\<lambda>grp w.
                     (Inr grp,
                      if a_action args = ''list-inputs'' then print_line gf w else w))))"

subsection \<open>Classifying the entries of a directory\<close>

record dir_items =
  benchmark_file :: "string option"
  group_file :: "string option"
  rules :: "string list"
  vars :: "string list"
  subdirectories :: "(string \<times> fsnode) list"

definition no_items :: dir_items where
  "no_items = \<lparr>benchmark_file = None, group_file = None, rules = [], vars = [],
                subdirectories = []\<rparr>"

text \<open>
  One entry of the directory. The list \<open>subdirectories\<close> keeps, beside each path, the
  directory found there, which the recursion goes into.
\<close>

definition classify_item ::
  "externals \<Rightarrow> string \<Rightarrow> dir_items \<Rightarrow> string \<times> fsnode \<Rightarrow> world \<Rightarrow> (error + dir_items) \<times> world" where
  "classify_item ext guide_directory items entry w =
     (let dir_item = fst entry;
          dir_item_path = path_join guide_directory dir_item;
          extension = snd (splitext dir_item) in
      if extension = ''.var'' then (Inr (items\<lparr>vars := vars items @ [dir_item_path]\<rparr>), w)
      else if dir_item = ''benchmark.yml'' then
        (if path_truthy (benchmark_file items) then (Inl MultipleBenchmarks, w)
         else (Inr (items\<lparr>benchmark_file := Some dir_item_path\<rparr>), w))
      else if dir_item = ''group.yml'' then
        (if path_truthy (group_file items) then (Inl MultipleGroups, w)
         else (Inr (items\<lparr>group_file := Some dir_item_path\<rparr>), w))
      else if extension = ''.rule'' then
        (Inr (items\<lparr>rules := rules items @ [dir_item_path]\<rparr>), w)
      else if is_rule_dir ext dir_item_path then
        (Inr (items\<lparr>rules := rules items @ [get_rule_dir_yaml ext dir_item_path]\<rparr>), w)
      else if dir_item \<noteq> ''tests'' then
        (if isdir (snd entry)
         then (Inr (items\<lparr>subdirectories :=
                              subdirectories items @ [(dir_item_path, snd entry)]\<rparr>), w)
         else (Inr items,
               stderr_write
                 (''Encountered file '' @ [CHR 0x27] @ dir_item @ [CHR 0x27] @
                  '' while recursing, extension '' @ [CHR 0x27] @ extension @ [CHR 0x27] @
                  '' is unknown. Skipping..'' @ [CHR 0x0A]) w))
      else (Inr items, w))"

fun classify ::
  "externals \<Rightarrow> string \<Rightarrow> dir_items \<Rightarrow> (string \<times> fsnode) list \<Rightarrow> world \<Rightarrow>
   (error + dir_items) \<times> world" where
  "classify ext guide_directory items [] w = (Inr items, w)"
| "classify ext guide_directory items (entry # rest) w =
     bind_io (classify_item ext guide_directory items entry w) (\<lambda>items w.
       classify ext guide_directory items rest w)"

subsection \<open>Values and rules of a directory\<close>

fun add_values_loop ::
  "externals \<Rightarrow> build_args \<Rightarrow> node \<Rightarrow> string list \<Rightarrow> world \<Rightarrow> (error + node) \<times> world" where
  "add_values_loop ext args grp [] w = (Inr grp, w)"
| "add_values_loop ext args grp (value_yaml # rest) w =
     (if a_action args = ''list-inputs''
      then add_values_loop ext args grp rest (print_line value_yaml w)
      else
        bind_io (lift_io (Value_from_yaml ext value_yaml (a_env_yaml args)) w) (\<lambda>val w.
          add_values_loop ext args (add_value grp val) rest w))"

fun add_rules_loop ::
  "externals \<Rightarrow> build_args \<Rightarrow> node \<Rightarrow> string list \<Rightarrow> world \<Rightarrow> (error + node) \<times> world" where
  "add_rules_loop ext args grp [] w = (Inr grp, w)"
| "add_rules_loop ext args grp (rule_yaml # rest) w =
     (if a_action args = ''list-inputs''
      then add_rules_loop ext args grp rest (print_line rule_yaml w)
      else
        bind_io (lift_io (Rule_from_yaml ext rule_yaml (a_env_yaml args)) w) (\<lambda>rule w.
          add_rules_loop ext args (fst (add_rule grp rule)) rest w))"

subsection \<open>The recursion over directories\<close>

text \<open>
  The node of a directory is linked into its parent first; a group with a platform pushes
  it onto the node at that moment. The parent's dictionary holds the very object the
  assembler goes on filling with values, nested groups and rules, so at the end of the
  directory \<open>put_group\<close> stores the filled node under the id it was linked with.
\<close>

definition attach_to_parent :: "node option \<Rightarrow> node \<Rightarrow> error + node option \<times> node" where
  "attach_to_parent parent_group grp =
     (case parent_group of
        None \<Rightarrow> Inr (None, grp)
      | Some p \<Rightarrow>
          bind_err (add_group p (Some grp)) (\<lambda>(p, child).
            Inr (Some p, case child of None \<Rightarrow> grp | Some c \<Rightarrow> c)))"

fun put_group :: "node \<Rightarrow> node \<Rightarrow> node" where
  "put_group (Benchmark b vs gs rs) grp = Benchmark b vs (AList.update (node_id grp) grp gs) rs"
| "put_group (Group g vs gs rs) grp = Group g vs (AList.update (node_id grp) grp gs) rs"

text \<open>
  The weight of a list of entries bounds the recursion: the subdirectories of a directory
  are some of its entries.
\<close>

fun fs_weight :: "(string \<times> fsnode) list \<Rightarrow> nat" where
  "fs_weight [] = 0"
| "fs_weight ((p, n) # rest) = Suc (size n) + fs_weight rest"

lemma fs_weight_append: "fs_weight (xs @ ys) = fs_weight xs + fs_weight ys"
  by (induction xs) auto

lemma fs_weight_size: "fs_weight entries < size (FDir entries)"
  by (induction entries) auto

lemma classify_item_weight:
  "classify_item ext d items entry w = (Inr items', w') \<Longrightarrow>
   fs_weight (subdirectories items') \<le> fs_weight (subdirectories items) + fs_weight [entry]"
  by (cases entry) (auto simp: classify_item_def Let_def fs_weight_append split: if_splits)

lemma classify_weight:
  "classify ext d items entries w = (Inr items', w') \<Longrightarrow>
   fs_weight (subdirectories items') \<le> fs_weight (subdirectories items) + fs_weight entries"
proof (induction entries arbitrary: items w)
  case Nil
  then show ?case by simp
next
  case (Cons entry rest)
  obtain r w1 where ci: "classify_item ext d items entry w = (r, w1)" by (cases "classify_item ext d items entry w")
  show ?case
  proof (cases r)
    case (Inl e)
    with Cons.prems ci show ?thesis by simp
  next
    case (Inr items1)
    with Cons.prems ci have "classify ext d items1 rest w1 = (Inr items', w')" by simp
    from Cons.IH[OF this] classify_item_weight[OF ci[unfolded Inr]]
    show ?thesis by (cases entry) auto
  qed
qed

text \<open>
  \<open>add_from_directory\<close>: classify the entries, load the benchmark or group, link it
  into the parent, add the values, recurse into the subdirectories, add the rules, and at
  the top (no parent) write the tree when the action is \<open>build\<close>. It returns the parent
  as the call leaves it.
\<close>

function add_from_directory ::
  "externals \<Rightarrow> build_args \<Rightarrow> node option \<Rightarrow> string \<Rightarrow> fsnode \<Rightarrow> world \<Rightarrow>
   (error + node option) \<times> world"
  and add_subdirectories ::
  "externals \<Rightarrow> build_args \<Rightarrow> node \<Rightarrow> (string \<times> fsnode) list \<Rightarrow> world \<Rightarrow>
   (error + node) \<times> world" where
  "add_from_directory ext args parent_group guide_directory (FDir entries) w =
     bind_io (classify ext guide_directory no_items entries w) (\<lambda>items w.
     bind_io (load_benchmark_or_group ext args (group_file items) (benchmark_file items)
                guide_directory w) (\<lambda>loaded w.
     case loaded of
       None \<Rightarrow> (Inr parent_group, w)
     | Some grp \<Rightarrow>
         bind_io (lift_io (attach_to_parent parent_group grp) w) (\<lambda>(parent_group, grp) w.
         bind_io (add_values_loop ext args grp (vars items) w) (\<lambda>grp w.
         bind_io (add_subdirectories ext args grp (subdirectories items) w) (\<lambda>grp w.
         bind_io (add_rules_loop ext args grp (rules items) w) (\<lambda>grp w.
         case parent_group of
           None \<Rightarrow>
             if a_action args = ''build''
             then bind_io (to_file ext grp (a_output_file args) w) (\<lambda>_ w. (Inr None, w))
             else (Inr None, w)
         | Some p \<Rightarrow> (Inr (Some (put_group p grp)), w)))))))"
| "add_from_directory ext args parent_group guide_directory FFile w =
     (Inl (OSError guide_directory), w)"
| "add_from_directory ext args parent_group guide_directory FOther w =
     (Inl (OSError guide_directory), w)"
| "add_subdirectories ext args grp [] w = (Inr grp, w)"
| "add_subdirectories ext args grp ((subdir, n) # rest) w =
     bind_io (add_from_directory ext args (Some grp) subdir n w) (\<lambda>p w.
       add_subdirectories ext args (case p of None \<Rightarrow> grp | Some g \<Rightarrow> g) rest w)"
  by pat_completeness auto

termination
proof (relation "measure (\<lambda>x. case x of
          Inl (_, _, _, _, n, _) \<Rightarrow> size n
        | Inr (_, _, _, xs, _) \<Rightarrow> fs_weight xs)", goal_cases)
  case 1
  then show ?case by simp
next
  case (2 ext args parent_group guide_directory entries w items w1 loaded w2 grp pg w3 pg' grp' grp2 w4)
  from classify_weight[OF 2(1)] fs_weight_size[of entries]
  show ?case by (simp add: no_items_def)
next
  case 3
  then show ?case by simp
next
  case 4
  then show ?case by simp
qed



section \<open>Examples\<close>

text \<open>
  A small instance of the outside world, for evaluating the program: a parser that accepts
  a fragment \<open><t>data</t>\<close> whose data holds no markup, a platform table with one entry,
  a CCE checker that asks for four or five digits, a dash and a digit, and a handful of
  descriptors.
\<close>

definition plain_fromstring :: "string \<Rightarrow> xml option" where
  "plain_fromstring s =
     (if take 1 s = ''<'' \<and> CHR ''>'' \<in> set s then
        (let t = takeWhile (\<lambda>c. c \<noteq> CHR ''>'') (drop 1 s);
             rest = drop (length t + 2) s;
             closing = ''</'' @ t @ ''>'';
             data = take (length rest - length closing) rest
         in if t \<noteq> [] \<and> length closing \<le> length rest
               \<and> drop (length rest - length closing) rest = closing
               \<and> CHR ''<'' \<notin> set data \<and> CHR ''&'' \<notin> set data
            then Some (Element t [] (if data = [] then YNone else YStr data) YNone [])
            else None)
      else None)"

definition is_digit :: "char \<Rightarrow> bool" where
  "is_digit c = (48 \<le> (of_char c :: nat) \<and> (of_char c :: nat) \<le> 57)"

definition example_cce_valid :: "string \<Rightarrow> bool" where
  "example_cce_valid s =
     (take 4 s = ''CCE-'' \<and>
      (let rest = drop 4 s; ds = takeWhile is_digit rest; tl = drop (length ds) rest
       in (length ds = 4 \<or> length ds = 5) \<and> length tl = 2 \<and> take 1 tl = ''-'' \<and>
          list_all is_digit (drop 1 tl)))"

definition profile_doc :: ydict where
  "profile_doc =
     [(YStr ''title'', YStr ''OSPP''), (YStr ''description'', YStr ''Protection profile''),
      (YStr ''selections'', YList [YStr ''!rule_a'', YStr ''var_x=sel1'', YStr ''rule_b''])]"

definition group_doc :: ydict where
  "group_doc =
     [(YStr ''title'', YStr ''Services''), (YStr ''description'', YStr ''All services''),
      (YStr ''platform'', YStr ''machine'')]"

definition tagged_group_doc :: ydict where
  "tagged_group_doc =
     [(YStr ''title'', YStr ''Tagged''), (YStr ''description'', YStr ''D''),
      (YStr ''identifiers'', YDict [(YStr ''cce'', YStr ''27445-6'')])]"

definition value_doc :: ydict where
  "value_doc =
     [(YStr ''title'', YStr ''Timeout''), (YStr ''description'', YStr ''Idle timeout''),
      (YStr ''type'', YStr ''number''), (YStr ''operator'', YStr ''less than''),
      (YStr ''options'', YDict [(YStr ''default'', YInt 300)])]"

definition bad_operator_doc :: ydict where
  "bad_operator_doc =
     [(YStr ''title'', YStr ''Timeout''), (YStr ''description'', YStr ''Idle timeout''),
      (YStr ''type'', YStr ''number''), (YStr ''operator'', YStr ''approximately''),
      (YStr ''options'', YDict [(YStr ''default'', YInt 300)])]"

definition typo_value_doc :: ydict where
  "typo_value_doc =
     [(YStr ''title'', YStr ''Timeout''), (YStr ''description'', YStr ''Idle timeout''),
      (YStr ''type'', YStr ''number''), (YStr ''interactiv'', YStr ''true''),
      (YStr ''options'', YDict [(YStr ''default'', YInt 300)])]"

definition two_warnings_doc :: ydict where
  "two_warnings_doc =
     [(YStr ''title'', YStr ''Timeout''), (YStr ''description'', YStr ''Idle timeout''),
      (YStr ''type'', YStr ''number''),
      (YStr ''options'', YDict [(YStr ''default'', YInt 300)]),
      (YStr ''warnings'',
       YList [YDict [(YStr ''general'', YStr ''One''), (YStr ''functionality'', YStr ''Two'')]]),
      (YStr ''interactiv'', YStr ''true'')]"

definition rule_doc :: ydict where
  "rule_doc =
     [(YStr ''title'', YStr ''Disable root login''), (YStr ''description'', YStr ''D''),
      (YStr ''rationale'', YStr ''R''), (YStr ''severity'', YStr ''medium''),
      (YStr ''identifiers'',
       YDict [(YStr ''cce'', YStr ''27445-6''), (YStr ''stigid@rhel7'', YStr ''040370'')]),
      (YStr ''references'', YDict [(YStr ''nist'', YStr ''AC-3'')])]"

definition external_rule_doc :: ydict where
  "external_rule_doc =
     [(YStr ''title'', YStr ''External''), (YStr ''description'', YStr ''D''),
      (YStr ''rationale'', YStr ''R''), (YStr ''severity'', YStr ''high''),
      (YStr ''oval_external_content'', YStr ''oval.xml'')]"

definition odd_rule_doc :: ydict where
  "odd_rule_doc =
     [(YStr ''title'', YStr ''Odd''), (YStr ''description'', YStr ''D''),
      (YStr ''rationale'', YStr ''R''), (YStr ''severity'', YStr ''low''),
      (YStr ''identifiers'', YDict [(YStr ''prodtype@rhel7'', YStr ''x'')])]"

definition blank_rule_doc :: ydict where
  "blank_rule_doc =
     [(YStr ''title'', YStr ''Blank''), (YStr ''description'', YStr ''D''),
      (YStr ''rationale'', YStr ''R''), (YStr ''severity'', YStr ''low''),
      (YStr ''identifiers'', YDict [(YStr ''cce'', YStr ''  '')])]"

definition benchmark_doc :: ydict where
  "benchmark_doc =
     [(YStr ''title'', YStr ''Guide''), (YStr ''status'', YStr ''draft''),
      (YStr ''description'', YStr ''The guide''),
      (YStr ''notice'',
       YDict [(YStr ''id'', YStr ''terms''), (YStr ''description'', YStr ''Do not rely'')]),
      (YStr ''front-matter'', YStr ''Front''), (YStr ''rear-matter'', YStr ''Rear''),
      (YStr ''version'', YInt 1)]"

definition example_docs :: "string \<Rightarrow> ydict option" where
  "example_docs f =
     (if f = ''profiles/ospp.profile'' then Some profile_doc
      else if f = ''guide/benchmark.yml'' then Some benchmark_doc
      else if f = ''guide/services/group.yml'' then Some group_doc
      else if f = ''guide/tagged/group.yml'' then Some tagged_group_doc
      else if f = ''guide/services/timeout.var'' then Some value_doc
      else if f = ''guide/services/bad.var'' then Some bad_operator_doc
      else if f = ''guide/services/typo.var'' then Some typo_value_doc
      else if f = ''guide/services/two.var'' then Some two_warnings_doc
      else if f = ''guide/services/sshd/rule.yml'' then Some rule_doc
      else if f = ''guide/services/ext.rule'' then Some external_rule_doc
      else if f = ''guide/services/odd.rule'' then Some odd_rule_doc
      else if f = ''guide/services/blank.rule'' then Some blank_rule_doc
      else None)"

definition ext0 :: externals where
  "ext0 =
     \<lparr>open_and_expand = (\<lambda>f e. Inr (example_docs f)),
      open_and_macro_expand = (\<lambda>f e. Inr (example_docs f)),
      is_cce_valid = example_cce_valid,
      get_rule_dir_id = (\<lambda>p. basename (dirname p)),
      get_rule_dir_yaml = (\<lambda>p. path_join p ''rule.yml''),
      is_rule_dir = (\<lambda>p. p = ''guide/services/sshd''),
      XCCDF_PLATFORM_TO_CPE = (\<lambda>p. if p = ''machine'' then Some ''cpe:/a:machine'' else None),
      PRODUCT_TO_CPE_MAPPING = (\<lambda>p. None),
      ET_fromstring = plain_fromstring,
      ET_parse = (\<lambda>f. None),
      py_repr = (\<lambda>v. ''?''),
      today = ''2020-01-01''\<rparr>"

definition example_profile :: profile where
  "example_profile =
     \<lparr>p_id = ''ospp'', p_title = YStr ''OSPP'', p_description = YStr ''Protection profile'',
      p_extends = YNone,
      p_selections = YList [YStr ''!rule_a'', YStr ''var_x=sel1'', YStr ''rule_b'']\<rparr>"

definition example_value :: "value" where
  "example_value =
     \<lparr>v_id = ''timeout'', v_title = YStr ''Timeout'', v_description = YStr ''Idle timeout'',
      v_type = YStr ''number'', v_operator = YStr ''less than'', v_interactive = False,
      v_options = YDict [(YStr ''default'', YInt 300)], v_warnings = YList []\<rparr>"

definition example_group :: node where
  "example_group =
     Group \<lparr>g_id = ''services'', g_prodtype = YStr ''all'', g_title = YStr ''Services'',
            g_description = YStr ''All services'', g_warnings = YList [],
            g_platform = YStr ''machine''\<rparr> [] [] []"

definition example_rule :: rule where
  "example_rule =
     \<lparr>r_id = ''sshd'', r_prodtype = YStr ''all'', r_title = YStr ''Disable root login'',
      r_description = YStr ''D'', r_rationale = YStr ''R'', r_severity = YStr ''medium'',
      r_references = YDict [(YStr ''nist'', YStr ''AC-3'')],
      r_identifiers =
        YDict [(YStr ''cce'', YStr ''27445-6''), (YStr ''stigid@rhel7'', YStr ''040370'')],
      r_ocil_clause = YNone, r_ocil = YNone, r_external_oval = YNone,
      r_warnings = YList [], r_platform = YNone\<rparr>"

definition example_rule_xml :: xml where
  "example_rule_xml =
     Element ''Rule'' [(''id'', YStr ''sshd''), (''severity'', YStr ''medium'')] YNone YNone
       [Element ''title'' [] (YStr ''Disable root login'') YNone [],
        Element ''description'' [] (YStr ''D'') YNone [],
        Element ''rationale'' [] (YStr ''R'') YNone [],
        Element ''ident'' [(''stigid'', YStr ''040370''), (''prodtype'', YStr ''rhel7'')]
          YNone YNone [],
        Element ''ident'' [(''cce'', YStr ''27445-6'')] YNone YNone [],
        Element ''ref'' [(''nist'', YStr ''AC-3'')] YNone YNone [],
        Element ''oval'' [(''id'', YStr ''sshd'')] YNone YNone []]"


definition external_rule :: rule where
  "external_rule =
     \<lparr>r_id = ''ext'', r_prodtype = YStr ''all'', r_title = YStr ''External'',
      r_description = YStr ''D'', r_rationale = YStr ''R'', r_severity = YStr ''high'',
      r_references = YDict [], r_identifiers = YDict [],
      r_ocil_clause = YNone, r_ocil = YNone, r_external_oval = YStr ''oval.xml'',
      r_warnings = YList [], r_platform = YNone\<rparr>"

definition external_rule_xml :: xml where
  "external_rule_xml =
     Element ''Rule'' [(''id'', YStr ''ext''), (''severity'', YStr ''high'')] YNone YNone
       [Element ''title'' [] (YStr ''External'') YNone [],
        Element ''description'' [] (YStr ''D'') YNone [],
        Element ''rationale'' [] (YStr ''R'') YNone [],
        Element ''check''
          [(''system'', YStr ''http://oval.mitre.org/XMLSchema/oval-definitions-5'')]
          YNone YNone
          [Element ''check-content-ref'' [(''href'', YStr ''oval.xml'')] YNone YNone []]]"

lemma external_rule_parsed:
  "Rule_from_yaml ext0 ''guide/services/ext.rule'' None = Inr (Some external_rule)"
  by code_simp

lemma external_rule_rendered:
  "Rule_to_xml_element ext0 external_rule = Inr external_rule_xml"
  by code_simp

lemma example_rule_rendered:
  "Rule_to_xml_element ext0 example_rule = Inr example_rule_xml"
  by code_simp

lemma example_profile_parsed:
  "Profile_from_yaml ext0 ''profiles/ospp.profile'' None = Inr (Some example_profile)"
  by code_simp

lemma example_value_parsed:
  "Value_from_yaml ext0 ''guide/services/timeout.var'' None = Inr (Some example_value)"
  by code_simp

lemma example_group_parsed:
  "Group_from_yaml ext0 ''guide/services/group.yml'' None = Inr (Some example_group)"
  by code_simp

lemma example_rule_parsed:
  "Rule_from_yaml ext0 ''guide/services/sshd/rule.yml'' None = Inr (Some example_rule)"
  by code_simp

section \<open>Auxiliary facts\<close>

lemma bind_errE:
  assumes "bind_err m f = Inr y"
  obtains x where "m = Inr x" and "f x = Inr y"
  using assms by (cases m) auto

lemma split_last_occurrence:
  assumes "c \<in> set xs"
  shows "\<exists>pre. xs = pre @ c # rev (takeWhile (\<lambda>x. x \<noteq> c) (rev xs))"
proof -
  have "c \<in> set (rev xs)" using assms by simp
  then obtain rest where d: "dropWhile (\<lambda>x. x \<noteq> c) (rev xs) = c # rest"
    by (metis (mono_tags, lifting) dropWhile_eq_Nil_conv hd_dropWhile list.exhaust_sel)
  have "rev xs = takeWhile (\<lambda>x. x \<noteq> c) (rev xs) @ dropWhile (\<lambda>x. x \<noteq> c) (rev xs)"
    by simp
  then have "rev xs = takeWhile (\<lambda>x. x \<noteq> c) (rev xs) @ c # rest" using d by simp
  then have "xs = rev (takeWhile (\<lambda>x. x \<noteq> c) (rev xs) @ c # rest)" by (metis rev_rev_ident)
  then have "xs = rev rest @ c # rev (takeWhile (\<lambda>x. x \<noteq> c) (rev xs))" by simp
  then show ?thesis by blast
qed

lemma basename_suffix: "\<exists>d. p = d @ basename p"
  unfolding basename_def
  by (metis append_take_drop_id rev_append rev_rev_ident takeWhile_eq_take)

lemma splitext_concat: "splitext p = (r, e) \<Longrightarrow> r @ e = p"
proof -
  assume a: "splitext p = (r, e)"
  define name where "name = basename p"
  define ext where "ext = rev (takeWhile (\<lambda>c. c \<noteq> CHR ''.'') (rev name))"
  show ?thesis
  proof (cases "CHR ''.'' \<in> set name \<and> \<not> list_all (\<lambda>c. c = CHR ''.'') (take (length name - length ext - 1) name)")
    case False
    with a show ?thesis by (auto simp: splitext_def Let_def name_def ext_def)
  next
    case True
    with a have r: "r = take (length p - length ext - 1) p" and e: "e = CHR ''.'' # ext"
      by (auto simp: splitext_def Let_def name_def ext_def)
    from True obtain pre where n: "name = pre @ CHR ''.'' # ext"
      using split_last_occurrence[of "CHR ''.''" name] by (auto simp: ext_def)
    obtain d where "p = d @ name" using basename_suffix[of p] by (auto simp: name_def)
    with n have p: "p = (d @ pre) @ CHR ''.'' # ext" by simp
    have "length p - length ext - 1 = length (d @ pre)" by (subst p) simp
    then have "r = d @ pre" using r p by (metis append_eq_conv_conj)
    with e p show ?thesis by simp
  qed
qed


section \<open>Ids come from paths\<close>

lemma Profile_from_yaml_id:
  "Profile_from_yaml ext f env = Inr (Some p) \<Longrightarrow> p_id p = fst (splitext (basename f))"
  by (auto simp: Profile_from_yaml_def Let_def case_prod_beta Profile_init_def
       simp del: required_key.simps elim!: bind_errE split: option.splits if_splits)

lemma Value_from_yaml_id:
  "Value_from_yaml ext f env = Inr (Some v) \<Longrightarrow> v_id v = fst (splitext (basename f))"
  by (auto simp: Value_from_yaml_def Let_def case_prod_beta Value_init_def
       simp del: required_key.simps elim!: bind_errE split: option.splits if_splits)

lemma Group_from_yaml_id:
  "Group_from_yaml ext f env = Inr (Some g) \<Longrightarrow> node_id g = basename (dirname f)"
  by (auto simp: Group_from_yaml_def Let_def case_prod_beta
       simp del: required_key.simps elim!: bind_errE split: option.splits if_splits)

lemma Rule_from_yaml_id:
  "Rule_from_yaml ext f env = Inr (Some r) \<Longrightarrow>
   r_id r = (if fst (splitext (basename f)) = ''rule'' \<and> snd (splitext (basename f)) = ''.yml''
             then get_rule_dir_id ext f else fst (splitext (basename f)))"
  by (auto simp: Rule_from_yaml_def Let_def case_prod_beta Rule_init_def
       simp del: required_key.simps elim!: bind_errE split: option.splits if_splits)

lemma splitext_rule_yml:
  "fst (splitext b) = ''rule'' \<and> snd (splitext b) = ''.yml'' \<longleftrightarrow> b = ''rule.yml''"
proof
  assume "fst (splitext b) = ''rule'' \<and> snd (splitext b) = ''.yml''"
  then have "splitext b = (''rule'', ''.yml'')" by (simp add: prod_eq_iff)
  from splitext_concat[OF this] show "b = ''rule.yml''" by simp
next
  assume "b = ''rule.yml''"
  then show "fst (splitext b) = ''rule'' \<and> snd (splitext b) = ''.yml''"
    by (simp add: splitext_def basename_def Let_def)
qed

text \<open>
  C10. The id of a parsed entity is computed from the path of its descriptor and never
  from the document: a profile and a value take the file name without its extension, a
  group the name of the directory that holds its descriptor, and a rule the file name
  without its extension unless the file is named \<open>rule.yml\<close>, when the id is what the
  rule-directory helper \<open>get_rule_dir_id\<close> gives for the path.
\<close>

theorem ids_from_paths:
  "(Profile_from_yaml ext f env = Inr (Some p) \<longrightarrow> p_id p = fst (splitext (basename f))) \<and>
   (Value_from_yaml ext f env = Inr (Some v) \<longrightarrow> v_id v = fst (splitext (basename f))) \<and>
   (Group_from_yaml ext f env = Inr (Some g) \<longrightarrow> node_id g = basename (dirname f)) \<and>
   (Rule_from_yaml ext f env = Inr (Some r) \<longrightarrow>
      r_id r = (if basename f = ''rule.yml'' then get_rule_dir_id ext f
                else fst (splitext (basename f))))"
proof (intro conjI impI)
  assume "Rule_from_yaml ext f env = Inr (Some r)"
  from Rule_from_yaml_id[OF this] splitext_rule_yml[of "basename f"]
  show "r_id r = (if basename f = ''rule.yml'' then get_rule_dir_id ext f
                  else fst (splitext (basename f)))"
    by auto
qed (simp_all add: Profile_from_yaml_id Value_from_yaml_id Group_from_yaml_id)

theorem ids_from_paths_witness:
  "Profile_from_yaml ext0 ''profiles/ospp.profile'' None = Inr (Some example_profile) \<and>
   p_id example_profile = ''ospp'' \<and>
   Value_from_yaml ext0 ''guide/services/timeout.var'' None = Inr (Some example_value) \<and>
   v_id example_value = ''timeout'' \<and>
   Group_from_yaml ext0 ''guide/services/group.yml'' None = Inr (Some example_group) \<and>
   node_id example_group = ''services'' \<and>
   Rule_from_yaml ext0 ''guide/services/sshd/rule.yml'' None = Inr (Some example_rule) \<and>
   r_id example_rule = get_rule_dir_id ext0 ''guide/services/sshd/rule.yml'' \<and>
   get_rule_dir_id ext0 ''guide/services/sshd/rule.yml'' = ''sshd''"
proof -
  have "p_id example_profile = fst (splitext (basename ''profiles/ospp.profile''))"
    using ids_from_paths[of ext0 "''profiles/ospp.profile''" None example_profile]
      example_profile_parsed by blast
  moreover have "fst (splitext (basename ''profiles/ospp.profile'')) = ''ospp''"
    by code_simp
  moreover have "v_id example_value = fst (splitext (basename ''guide/services/timeout.var''))"
    using ids_from_paths[of ext0 "''guide/services/timeout.var''" None _ example_value]
      example_value_parsed by blast
  moreover have "fst (splitext (basename ''guide/services/timeout.var'')) = ''timeout''"
    by code_simp
  moreover have "node_id example_group = basename (dirname ''guide/services/group.yml'')"
    using ids_from_paths[of ext0 "''guide/services/group.yml''" None _ _ example_group]
      example_group_parsed by blast
  moreover have "basename (dirname ''guide/services/group.yml'') = ''services''"
    by code_simp
  moreover have "basename ''guide/services/sshd/rule.yml'' = ''rule.yml''"
    by code_simp
  then have "r_id example_rule = get_rule_dir_id ext0 ''guide/services/sshd/rule.yml''"
    using ids_from_paths[of ext0 "''guide/services/sshd/rule.yml''" None _ _ _ example_rule]
      example_rule_parsed by simp
  moreover have "get_rule_dir_id ext0 ''guide/services/sshd/rule.yml'' = ''sshd''"
    by code_simp
  ultimately show ?thesis
    using example_profile_parsed example_value_parsed example_group_parsed example_rule_parsed
    by simp
qed

section \<open>Adding nothing\<close>

text \<open>
  C9. \<open>add_value\<close>, \<open>add_group\<close> and \<open>add_rule\<close> of a benchmark or group, called with
  \<open>None\<close>, return normally and leave the container as it was: its values, groups and
  rules, and with them every child and the platform it carries.
\<close>

theorem add_none_is_noop:
  "add_value self None = self \<and> add_group self None = Inr (self, None) \<and>
   add_rule self None = (self, None)"
  by simp


theorem add_none_is_noop_witness:
  "add_value example_group None = example_group \<and>
   add_group example_group None = Inr (example_group, None) \<and>
   add_rule example_group None = (example_group, None) \<and>
   add_value (Benchmark_init ''product-name'') None = Benchmark_init ''product-name'' \<and>
   add_group (Benchmark_init ''product-name'') None = Inr (Benchmark_init ''product-name'', None) \<and>
   add_rule (Benchmark_init ''product-name'') None = (Benchmark_init ''product-name'', None)"
  using add_none_is_noop[of example_group] add_none_is_noop[of "Benchmark_init ''product-name''"]
  by simp

section \<open>Profile selections\<close>

text \<open>
  The directive of a selection as the specification words it: a leading \<open>!\<close> unselects
  the rest of the string; otherwise a string with \<open>=\<close> refines the value before the
  first \<open>=\<close> with the selector after it; any other string selects the rule.
\<close>

definition selection_directive :: "string \<Rightarrow> xml" where
  "selection_directive s =
     (if s \<noteq> [] \<and> hd s = CHR ''!'' then
        Element ''select'' [(''idref'', YStr (tl s)), (''selected'', YStr ''false'')] YNone YNone []
      else if CHR ''='' \<in> set s then
        (let value_id = takeWhile (\<lambda>c. c \<noteq> CHR ''='') s;
             selector = drop (length value_id + 1) s
         in Element ''refine-value'' [(''idref'', YStr value_id), (''selector'', YStr selector)]
              YNone YNone [])
      else
        Element ''select'' [(''idref'', YStr s), (''selected'', YStr ''true'')] YNone YNone [])"

lemma take1_bang: "take (Suc 0) s = ''!'' \<longleftrightarrow> s \<noteq> [] \<and> hd s = CHR ''!''"
proof (cases s)
  case Nil
  then show ?thesis by simp
next
  case (Cons a as)
  then show ?thesis by simp
qed

lemma tl_dropWhile: "tl (dropWhile P s) = drop (length (takeWhile P s) + 1) s"
  by (induction s) auto

lemma Profile_selection_element_str:
  "Profile_selection_element (YStr s) = Inr (selection_directive s)"
  by (auto simp: selection_directive_def take1_bang py_split1_def tl_dropWhile Let_def
        el_set_def ET_Element_def drop_Suc)

lemma Profile_selections_loop_strs:
  "Profile_selections_loop element (map YStr ss) =
     Inr (Element (x_tag element) (x_attrib element) (x_text element) (x_tail element)
            (x_children element @ map selection_directive ss))"
  by (induction ss arbitrary: element)
     (simp_all add: Profile_selection_element_str el_append_def del: Profile_selection_element.simps)

lemma first_equals_split:
  "CHR ''='' \<in> set s \<Longrightarrow>
   s = takeWhile (\<lambda>c. c \<noteq> CHR ''='') s @ ''='' @
       drop (length (takeWhile (\<lambda>c. c \<noteq> CHR ''='') s) + 1) s"
  by (induction s) auto

text \<open>
  C4. Rendering a profile whose selections are the strings \<open>ss\<close> returns (once the title
  and the description parse) an element whose children are the title, the description and
  then exactly one directive for each selection, in the order of the source, each decided
  by the three checks in their order.
\<close>

theorem profile_selections_in_order:
  assumes "p_selections p = YList (map YStr ss)"
    and "ET_fromstring ext (''<title>'' @ py_str (py_repr ext) (p_title p) @ ''</title>'') = Some t"
    and "ET_fromstring ext
           (''<description>'' @ py_str (py_repr ext) (p_description p) @ ''</description>'') = Some d"
  shows "\<exists>el. Profile_to_xml_element ext p = Inr el \<and>
           x_children el =
             [el_set t ''override'' (YStr ''true''), el_set d ''override'' (YStr ''true'')] @
             map selection_directive ss"
  using assms
  by (simp add: Profile_to_xml_element_def add_sub_element_def Let_def
        Profile_selections_loop_strs el_sync_last_def el_append_def el_set_def ET_Element_def)


theorem profile_selections_in_order_witness:
  "p_selections example_profile = YList (map YStr [''!rule_a'', ''var_x=sel1'', ''rule_b'']) \<and>
   (\<exists>el. Profile_to_xml_element ext0 example_profile = Inr el \<and>
      x_children el =
        [Element ''title'' [(''override'', YStr ''true'')] (YStr ''OSPP'') YNone [],
         Element ''description'' [(''override'', YStr ''true'')] (YStr ''Protection profile'')
           YNone [],
         Element ''select'' [(''idref'', YStr ''rule_a''), (''selected'', YStr ''false'')]
           YNone YNone [],
         Element ''refine-value'' [(''idref'', YStr ''var_x''), (''selector'', YStr ''sel1'')]
           YNone YNone [],
         Element ''select'' [(''idref'', YStr ''rule_b''), (''selected'', YStr ''true'')]
           YNone YNone []])"
proof -
  have s: "p_selections example_profile =
             YList (map YStr [''!rule_a'', ''var_x=sel1'', ''rule_b''])"
    by (simp add: example_profile_def)
  have t: "ET_fromstring ext0
             (''<title>'' @ py_str (py_repr ext0) (p_title example_profile) @ ''</title>'') =
           Some (Element ''title'' [] (YStr ''OSPP'') YNone [])"
    by code_simp
  have d: "ET_fromstring ext0
             (''<description>'' @ py_str (py_repr ext0) (p_description example_profile) @
              ''</description>'') =
           Some (Element ''description'' [] (YStr ''Protection profile'') YNone [])"
    by code_simp
  have m: "map selection_directive [''!rule_a'', ''var_x=sel1'', ''rule_b''] =
           [Element ''select'' [(''idref'', YStr ''rule_a''), (''selected'', YStr ''false'')]
              YNone YNone [],
            Element ''refine-value'' [(''idref'', YStr ''var_x''), (''selector'', YStr ''sel1'')]
              YNone YNone [],
            Element ''select'' [(''idref'', YStr ''rule_b''), (''selected'', YStr ''true'')]
              YNone YNone []]"
    by code_simp
  from profile_selections_in_order[OF s t d] m s show ?thesis
    by (simp add: el_set_def)
qed

section \<open>Rendering a rule\<close>

text \<open>
  The two elements that point to the OVAL check of a rule: the pointer that carries the
  rule's own id, and the check that refers to external content.
\<close>

definition oval_pointer :: "rule \<Rightarrow> xml" where
  "oval_pointer self = Element ''oval'' [(''id'', YStr (r_id self))] YNone YNone []"

definition external_check :: "rule \<Rightarrow> xml" where
  "external_check self =
     Element ''check'' [(''system'', YStr ''http://oval.mitre.org/XMLSchema/oval-definitions-5'')]
       YNone YNone
       [Element ''check-content-ref'' [(''href'', r_external_oval self)] YNone YNone []]"

lemma Rule_check_appends:
  "Rule_check self rule =
     el_append rule (if py_truthy (r_external_oval self) then external_check self
                     else oval_pointer self)"
  by (simp add: Rule_check_def ET_SubElement_def el_sync_last_def el_append_def el_set_def
        ET_Element_def oval_pointer_def external_check_def)

lemma add_sub_element_children:
  "add_sub_element ext parent t data = Inr (p, e) \<Longrightarrow> x_children p = x_children parent @ [e]"
  by (auto simp: add_sub_element_def Let_def el_append_def split: option.splits)

lemma Rule_entry_children:
  "Rule_entry t (rule, main) item = Inr (rule', main') \<Longrightarrow>
   \<exists>new. x_children rule' = x_children rule @ new"
  by (cases item)
     (auto simp: ET_SubElement_def el_sync_last_def el_append_def Let_def
        elim!: bind_errE split: if_splits yaml.splits)

lemma Rule_entries_loop_children:
  "Rule_entries_loop t (rule, main) items = Inr (rule', main') \<Longrightarrow>
   \<exists>new. x_children rule' = x_children rule @ new"
proof (induction items arbitrary: rule main)
  case Nil
  then show ?case by simp
next
  case (Cons item rest)
  from Cons.prems obtain r1 m1 where
    a: "Rule_entry t (rule, main) item = Inr (r1, m1)" and
    b: "Rule_entries_loop t (r1, m1) rest = Inr (rule', main')"
    by (auto elim!: bind_errE simp del: Rule_entry.simps)
  from Rule_entry_children[OF a] Cons.IH[OF b] show ?case by auto
qed

lemma Rule_entries_children:
  "Rule_entries t rule entries = Inr rule' \<Longrightarrow> \<exists>new. x_children rule' = x_children rule @ new"
  by (auto simp: Rule_entries_def Let_def el_append_def elim!: bind_errE
        dest!: Rule_entries_loop_children split: if_splits)

lemma Rule_ocil_children:
  "Rule_ocil ext self rule = Inr rule' \<Longrightarrow> \<exists>new. x_children rule' = x_children rule @ new"
  by (auto simp: Rule_ocil_def el_sync_last_def elim!: bind_errE
        dest!: add_sub_element_children split: if_splits)

lemma add_warning_element_children:
  "add_warning_element ext element w = Inr element' \<Longrightarrow>
   \<exists>new. x_children element' = x_children element @ new"
  by (induction ext element w rule: add_warning_element.induct)
     (auto simp: el_sync_last_def elim!: bind_errE dest!: add_sub_element_children)

lemma add_warning_loop_children:
  "add_warning_loop ext element ws = Inr element' \<Longrightarrow>
   \<exists>new. x_children element' = x_children element @ new"
proof (induction ws arbitrary: element)
  case Nil
  then show ?case by simp
next
  case (Cons w rest)
  from Cons.prems obtain e1 where
    a: "add_warning_element ext element w = Inr e1" and
    b: "add_warning_loop ext e1 rest = Inr element'"
    by (auto elim!: bind_errE)
  from add_warning_element_children[OF a] Cons.IH[OF b] show ?case by auto
qed

lemma add_warning_elements_children:
  "add_warning_elements ext element ws = Inr element' \<Longrightarrow>
   \<exists>new. x_children element' = x_children element @ new"
  by (auto simp: add_warning_elements_def elim!: bind_errE dest: add_warning_loop_children)

lemma add_platform_children:
  "add_platform ext parent platform ident = Inr parent' \<Longrightarrow>
   \<exists>new. x_children parent' = x_children parent @ new"
  by (auto simp: add_platform_def ET_SubElement_def el_sync_last_def el_append_def Let_def
        elim!: bind_errE split: if_splits)

text \<open>
  The parser gives the fragment \<open><t>data</t>\<close> an element tagged \<open>t\<close>, for the five
  tags the module wraps data in. With such a parser the only children of a rendered rule
  tagged \<open>oval\<close> or \<open>check\<close> are the ones the rendering itself builds.
\<close>

definition parser_keeps_tag :: "externals \<Rightarrow> bool" where
  "parser_keeps_tag ext =
     (\<forall>t data e.
        t \<in> set [''title'', ''description'', ''rationale'', ''ocil'', ''warning''] \<longrightarrow>
        ET_fromstring ext (''<'' @ t @ ''>'' @ data @ ''</'' @ t @ ''>'') = Some e \<longrightarrow>
        x_tag e = t)"

definition oval_or_check :: "xml \<Rightarrow> bool" where
  "oval_or_check c = (x_tag c = ''oval'' \<or> x_tag c = ''check'')"

lemma add_sub_element_tag:
  assumes "parser_keeps_tag ext"
    and "t \<in> set [''title'', ''description'', ''rationale'', ''ocil'', ''warning'']"
    and "add_sub_element ext parent t data = Inr (p, e)"
  shows "x_children p = x_children parent @ [e] \<and> x_tag e = t"
proof -
  from assms(3) have e: "ET_fromstring ext (''<'' @ t @ ''>'' @ py_str (py_repr ext) data @ ''</'' @ t @ ''>'') = Some e"
    and p: "p = el_append parent e"
    by (auto simp: add_sub_element_def Let_def split: option.splits)
  from assms(1,2) e have "x_tag e = t" unfolding parser_keeps_tag_def by blast
  with p show ?thesis by (simp add: el_append_def)
qed

lemma add_sub_element_no_oval:
  assumes "parser_keeps_tag ext"
    and "t \<in> set [''title'', ''description'', ''rationale'', ''ocil'', ''warning'']"
    and "add_sub_element ext parent t data = Inr (p, e)"
  shows "x_children p = x_children parent @ [e] \<and> \<not> oval_or_check e"
  using add_sub_element_tag[OF assms] assms(2) by (auto simp: oval_or_check_def)

lemma oval_or_check_el_set [simp]: "oval_or_check (el_set e k v) = oval_or_check e"
  by (simp add: oval_or_check_def el_set_def)

lemma sync_last_children:
  "x_children p = cs @ [e] \<Longrightarrow> x_children (el_sync_last p e') = cs @ [e']"
  by (simp add: el_sync_last_def)

lemma Rule_entry_no_oval:
  assumes "Rule_entry t (rule, main) item = Inr (rule', main')"
    and "t \<noteq> ''oval''" and "t \<noteq> ''check''" and "x_tag main = t"
  shows "filter oval_or_check (x_children rule') = filter oval_or_check (x_children rule) \<and>
         x_tag main' = t"
  using assms
  by (cases item)
     (auto simp: ET_SubElement_def el_sync_last_def el_append_def el_set_def ET_Element_def
        Let_def oval_or_check_def elim!: bind_errE split: if_splits yaml.splits)

lemma Rule_entries_loop_no_oval:
  assumes "Rule_entries_loop t (rule, main) items = Inr (rule', main')"
    and "t \<noteq> ''oval''" and "t \<noteq> ''check''" and "x_tag main = t"
  shows "filter oval_or_check (x_children rule') = filter oval_or_check (x_children rule) \<and>
         x_tag main' = t"
  using assms
proof (induction items arbitrary: rule main)
  case Nil
  then show ?case by simp
next
  case (Cons item rest)
  from Cons.prems(1) obtain r1 m1 where
    a: "Rule_entry t (rule, main) item = Inr (r1, m1)" and
    b: "Rule_entries_loop t (r1, m1) rest = Inr (rule', main')"
    by (auto elim!: bind_errE simp del: Rule_entry.simps)
  from Rule_entry_no_oval[OF a Cons.prems(2,3,4)]
  have c: "filter oval_or_check (x_children r1) = filter oval_or_check (x_children rule)"
    and m: "x_tag m1 = t" by auto
  from Cons.IH[OF b Cons.prems(2,3) m] c show ?case by simp
qed

lemma Rule_entries_no_oval:
  assumes "Rule_entries t rule entries = Inr rule'"
    and "t \<noteq> ''oval''" and "t \<noteq> ''check''"
  shows "filter oval_or_check (x_children rule') = filter oval_or_check (x_children rule)"
proof -
  from assms(1) obtain items r1 m1 where
    l: "Rule_entries_loop t (rule, ET_Element t) items = Inr (r1, m1)" and
    r: "rule' = (if x_attrib m1 \<noteq> [] then el_append r1 m1 else r1)"
    by (auto simp: Rule_entries_def Let_def elim!: bind_errE)
  have "x_tag (ET_Element t) = t" by (simp add: ET_Element_def)
  from Rule_entries_loop_no_oval[OF l assms(2,3) this] r assms(2,3) show ?thesis
    by (auto simp: el_append_def oval_or_check_def)
qed

lemma Rule_ocil_no_oval:
  assumes "parser_keeps_tag ext" and "Rule_ocil ext self rule = Inr rule'"
  shows "filter oval_or_check (x_children rule') = filter oval_or_check (x_children rule)"
proof (cases "py_truthy (r_ocil self) \<or> py_truthy (r_ocil_clause self)")
  case False
  with assms(2) show ?thesis by (simp add: Rule_ocil_def)
next
  case True
  with assms(2) obtain r1 e where
    a: "add_sub_element ext rule ''ocil''
          (if py_truthy (r_ocil self) then r_ocil self else YStr []) = Inr (r1, e)" and
    r: "rule' = (if py_truthy (r_ocil_clause self)
                 then el_sync_last r1 (el_set e ''clause'' (r_ocil_clause self)) else r1)"
    by (auto simp: Rule_ocil_def elim!: bind_errE split: if_splits)
  from add_sub_element_no_oval[OF assms(1) _ a]
  have c: "x_children r1 = x_children rule @ [e]" and n: "\<not> oval_or_check e" by auto
  from sync_last_children[OF c] c n r show ?thesis by auto
qed

lemma add_warning_element_no_oval:
  assumes "parser_keeps_tag ext" and "add_warning_element ext element w = Inr element'"
  shows "filter oval_or_check (x_children element') = filter oval_or_check (x_children element)"
proof -
  from assms(2) obtain k v kvs where w: "w = YDict ((k, v) # kvs)"
    by (cases "(ext, element, w)" rule: add_warning_element.cases) auto
  with assms(2) obtain r1 e where
    a: "add_sub_element ext element ''warning'' v = Inr (r1, e)" and
    r: "element' = el_sync_last r1 (el_set e ''category'' k)"
    by (auto elim!: bind_errE)
  from add_sub_element_no_oval[OF assms(1) _ a]
  have c: "x_children r1 = x_children element @ [e]" and n: "\<not> oval_or_check e" by auto
  from sync_last_children[OF c] n r show ?thesis by auto
qed

lemma add_warning_loop_no_oval:
  assumes "parser_keeps_tag ext" and "add_warning_loop ext element ws = Inr element'"
  shows "filter oval_or_check (x_children element') = filter oval_or_check (x_children element)"
  using assms(2)
proof (induction ws arbitrary: element)
  case Nil
  then show ?case by simp
next
  case (Cons w rest)
  from Cons.prems obtain e1 where
    a: "add_warning_element ext element w = Inr e1" and
    b: "add_warning_loop ext e1 rest = Inr element'"
    by (auto elim!: bind_errE)
  from add_warning_element_no_oval[OF assms(1) a] Cons.IH[OF b] show ?case by simp
qed

lemma add_warning_elements_no_oval:
  assumes "parser_keeps_tag ext" and "add_warning_elements ext element ws = Inr element'"
  shows "filter oval_or_check (x_children element') = filter oval_or_check (x_children element)"
  using assms(2) add_warning_loop_no_oval[OF assms(1)]
  by (auto simp: add_warning_elements_def elim!: bind_errE)

lemma add_platform_no_oval:
  "add_platform ext parent platform ident = Inr parent' \<Longrightarrow>
   filter oval_or_check (x_children parent') = filter oval_or_check (x_children parent)"
  by (auto simp: add_platform_def ET_SubElement_def el_sync_last_def el_append_def el_set_def
        ET_Element_def Let_def oval_or_check_def elim!: bind_errE split: if_splits)

lemma oval_or_check_step:
  "oval_or_check (if py_truthy (r_external_oval self) then external_check self
                  else oval_pointer self)"
  by (simp add: oval_or_check_def external_check_def oval_pointer_def)

lemma Rule_to_xml_element_one_pointer:
  assumes "parser_keeps_tag ext" and "Rule_to_xml_element ext self = Inr el"
  shows "filter oval_or_check (x_children el) =
           [if py_truthy (r_external_oval self) then external_check self else oval_pointer self]"
proof -
  from assms(2) obtain r0 t r1 d r2 ra r3 r4 r5 r6 r7 where
    a: "add_sub_element ext r0 ''title'' (r_title self) = Inr (r1, t)" and
    b: "add_sub_element ext r1 ''description'' (r_description self) = Inr (r2, d)" and
    c: "add_sub_element ext r2 ''rationale'' (r_rationale self) = Inr (r3, ra)" and
    r0: "x_children r0 = []" and
    i: "Rule_entries ''ident'' r3 (r_identifiers self) = Inr r4" and
    r: "Rule_entries ''ref'' r4 (r_references self) = Inr r5" and
    o: "Rule_ocil ext self (Rule_check self r5) = Inr r6" and
    w: "add_warning_elements ext r6 (r_warnings self) = Inr r7" and
    p: "add_platform ext r7 (r_platform self) (r_id self) = Inr el"
    by (auto simp: Rule_to_xml_element_def Let_def el_set_def ET_Element_def elim!: bind_errE)
  from add_sub_element_no_oval[OF assms(1) _ a] add_sub_element_no_oval[OF assms(1) _ b]
    add_sub_element_no_oval[OF assms(1) _ c] r0
  have "filter oval_or_check (x_children r3) = []" by auto
  with Rule_entries_no_oval[OF i] Rule_entries_no_oval[OF r]
  have "filter oval_or_check (x_children r5) = []" by simp
  then have "filter oval_or_check (x_children (Rule_check self r5)) =
               [if py_truthy (r_external_oval self) then external_check self
                else oval_pointer self]"
    using oval_or_check_step[of self] by (simp add: Rule_check_appends el_append_def)
  with Rule_ocil_no_oval[OF assms(1) o] add_warning_elements_no_oval[OF assms(1) w]
    add_platform_no_oval[OF p]
  show ?thesis by simp
qed

lemma plain_fromstring_tag:
  assumes "CHR ''>'' \<notin> set t" and "plain_fromstring (''<'' @ t @ ''>'' @ rest) = Some e"
  shows "x_tag e = t"
proof -
  have "takeWhile (\<lambda>c. c \<noteq> CHR ''>'') (t @ ''>'' @ rest) = t"
    using assms(1) by (induction t) auto
  with assms(2) show ?thesis
    by (auto simp: plain_fromstring_def Let_def split: if_splits)
qed

lemma ext0_keeps_tag: "parser_keeps_tag ext0"
  unfolding parser_keeps_tag_def
proof (intro allI impI)
  fix t data e
  assume t: "t \<in> set [''title'', ''description'', ''rationale'', ''ocil'', ''warning'']"
    and e: "ET_fromstring ext0 (''<'' @ t @ ''>'' @ data @ ''</'' @ t @ ''>'') = Some e"
  from t have "CHR ''>'' \<notin> set t" by auto
  moreover from e have "plain_fromstring (''<'' @ t @ ''>'' @ (data @ ''</'' @ t @ ''>'')) = Some e"
    by (simp add: ext0_def)
  ultimately show "x_tag e = t" by (rule plain_fromstring_tag)
qed

text \<open>
  C6. The step of the rendering that follows the references appends the synthetic OVAL
  pointer, whose id is the rule's own id, when the rule has no external OVAL reference,
  and otherwise a \<open>check\<close> element whose \<open>check-content-ref\<close> child carries the
  reference as href. Whenever the rendering returns, that element stands among the
  children of the rule element, and it is the only child tagged \<open>oval\<close> or \<open>check\<close>:
  a rule with an external reference has the check and no OVAL pointer, a rule without one
  has the OVAL pointer and no check.
\<close>

theorem rule_oval_pointer_or_check:
  "Rule_check self rule =
     el_append rule (if py_truthy (r_external_oval self) then external_check self
                     else oval_pointer self) \<and>
   (Rule_to_xml_element ext self = Inr el \<longrightarrow>
      (\<exists>pre post.
         x_children el =
           pre @ [if py_truthy (r_external_oval self) then external_check self
                  else oval_pointer self] @ post)) \<and>
   (parser_keeps_tag ext \<and> Rule_to_xml_element ext self = Inr el \<longrightarrow>
      filter oval_or_check (x_children el) =
        [if py_truthy (r_external_oval self) then external_check self else oval_pointer self])"
proof (intro conjI impI)
  assume assms: "Rule_to_xml_element ext self = Inr el"
  from assms obtain r2 r3 r4 r5 where
    c: "r3 = Rule_check self r2" and
    o: "Rule_ocil ext self r3 = Inr r4" and
    w: "add_warning_elements ext r4 (r_warnings self) = Inr r5" and
    p: "add_platform ext r5 (r_platform self) (r_id self) = Inr el"
    by (auto simp: Rule_to_xml_element_def Let_def elim!: bind_errE)
  from Rule_ocil_children[OF o] add_warning_elements_children[OF w] add_platform_children[OF p]
  obtain post where "x_children el = x_children r3 @ post" by auto
  then show "\<exists>pre post.
         x_children el =
           pre @ [if py_truthy (r_external_oval self) then external_check self
                  else oval_pointer self] @ post"
    by (simp add: c Rule_check_appends el_append_def) blast
next
  assume "parser_keeps_tag ext \<and> Rule_to_xml_element ext self = Inr el"
  then show "filter oval_or_check (x_children el) =
        [if py_truthy (r_external_oval self) then external_check self else oval_pointer self]"
    using Rule_to_xml_element_one_pointer by blast
qed (rule Rule_check_appends)

theorem rule_oval_pointer_or_check_witness:
  "parser_keeps_tag ext0 \<and>
   Rule_to_xml_element ext0 example_rule = Inr example_rule_xml \<and>
   \<not> py_truthy (r_external_oval example_rule) \<and>
   filter oval_or_check (x_children example_rule_xml) =
     [Element ''oval'' [(''id'', YStr ''sshd'')] YNone YNone []] \<and>
   Rule_from_yaml ext0 ''guide/services/ext.rule'' None = Inr (Some external_rule) \<and>
   Rule_to_xml_element ext0 external_rule = Inr external_rule_xml \<and>
   py_truthy (r_external_oval external_rule) \<and>
   filter oval_or_check (x_children external_rule_xml) =
     [Element ''check''
        [(''system'', YStr ''http://oval.mitre.org/XMLSchema/oval-definitions-5'')]
        YNone YNone
        [Element ''check-content-ref'' [(''href'', YStr ''oval.xml'')] YNone YNone []]]"
proof -
  have a: "filter oval_or_check (x_children example_rule_xml) =
             [if py_truthy (r_external_oval example_rule) then external_check example_rule
              else oval_pointer example_rule]"
    using rule_oval_pointer_or_check[of example_rule _ ext0 example_rule_xml]
      ext0_keeps_tag example_rule_rendered by blast
  have b: "filter oval_or_check (x_children external_rule_xml) =
             [if py_truthy (r_external_oval external_rule) then external_check external_rule
              else oval_pointer external_rule]"
    using rule_oval_pointer_or_check[of external_rule _ ext0 external_rule_xml]
      ext0_keeps_tag external_rule_rendered by blast
  have n: "\<not> py_truthy (r_external_oval example_rule)" by (simp add: example_rule_def)
  have y: "py_truthy (r_external_oval external_rule)" by (simp add: external_rule_def)
  from a n have a': "filter oval_or_check (x_children example_rule_xml) =
                       [Element ''oval'' [(''id'', YStr ''sshd'')] YNone YNone []]"
    by (simp add: oval_pointer_def example_rule_def)
  from b y have b': "filter oval_or_check (x_children external_rule_xml) =
     [Element ''check''
        [(''system'', YStr ''http://oval.mitre.org/XMLSchema/oval-definitions-5'')]
        YNone YNone
        [Element ''check-content-ref'' [(''href'', YStr ''oval.xml'')] YNone YNone []]]"
    by (simp add: external_check_def external_rule_def)
  from a' b' n y ext0_keeps_tag example_rule_rendered external_rule_parsed
    external_rule_rendered
  show ?thesis by simp
qed

subsection \<open>Identifiers and references\<close>



















section \<open>Platform inheritance\<close>

lemma Rule_check_platform [simp]:
  "Rule_check (self\<lparr>r_platform := p\<rparr>) rule = Rule_check self rule"
  by (simp add: Rule_check_def)

lemma Rule_ocil_platform [simp]:
  "Rule_ocil ext (self\<lparr>r_platform := p\<rparr>) rule = Rule_ocil ext self rule"
  by (simp add: Rule_ocil_def split_def cong: if_cong)

lemma bind_err_assoc:
  "bind_err (bind_err m f) g = bind_err m (\<lambda>x. bind_err (f x) g)"
  by (cases m) simp_all

lemma bind_err_Inr_right: "bind_err m Inr = m"
  by (cases m) simp_all

lemma Rule_to_xml_element_platform:
  "Rule_to_xml_element ext self =
     bind_err (Rule_to_xml_element ext (self\<lparr>r_platform := YNone\<rparr>))
       (\<lambda>rule. add_platform ext rule (r_platform self) (r_id self))"
  by (simp add: Rule_to_xml_element_def Let_def bind_err_assoc split_def
        add_platform_def[where platform = YNone] bind_err_Inr_right)

lemma Rule_render_without_platform:
  assumes "\<not> py_truthy (r_platform self)"
  shows "Rule_to_xml_element ext (self\<lparr>r_platform := YNone\<rparr>) = Rule_to_xml_element ext self"
  using assms
  by (subst (2) Rule_to_xml_element_platform) (simp add: add_platform_def bind_err_Inr_right)

lemma add_platform_known:
  assumes "P \<noteq> []" and "XCCDF_PLATFORM_TO_CPE ext P = Some cpe"
  shows "add_platform ext parent (YStr P) ident =
           Inr (el_append parent (Element ''platform'' [(''idref'', YStr cpe)] YNone YNone []))"
  using assms
  by (simp add: add_platform_def ET_SubElement_def el_sync_last_def el_append_def el_set_def
        ET_Element_def)

text \<open>
  C3. A group with a platform (a value that counts as true) that takes a rule or a group
  without one stores the child, and leaves the child itself, with the group's platform;
  a child with a platform of its own is stored as it is. Such a rule then renders
  as it did before with one more child at the end, the \<open>platform\<close> element whose idref
  is the CPE the table gives for the group's platform name.
\<close>

theorem platform_pushed_down:
  assumes "py_truthy (g_platform g)"
  shows "(\<not> py_truthy (r_platform rule) \<longrightarrow>
            add_rule (Group g vs gs rs) (Some rule) =
              (Group g vs gs (AList.update (r_id rule) (rule\<lparr>r_platform := g_platform g\<rparr>) rs),
               Some (rule\<lparr>r_platform := g_platform g\<rparr>))) \<and>
         (py_truthy (r_platform rule) \<longrightarrow>
            add_rule (Group g vs gs rs) (Some rule) =
              (Group g vs gs (AList.update (r_id rule) rule rs), Some rule)) \<and>
         (\<not> py_truthy (g_platform cg) \<longrightarrow>
            add_group (Group g vs gs rs) (Some (Group cg cvs cgs crs)) =
              Inr (Group g vs
                     (AList.update (g_id cg) (Group (cg\<lparr>g_platform := g_platform g\<rparr>) cvs cgs crs) gs)
                     rs,
                   Some (Group (cg\<lparr>g_platform := g_platform g\<rparr>) cvs cgs crs))) \<and>
         (py_truthy (g_platform cg) \<longrightarrow>
            add_group (Group g vs gs rs) (Some (Group cg cvs cgs crs)) =
              Inr (Group g vs (AList.update (g_id cg) (Group cg cvs cgs crs) gs) rs,
                   Some (Group cg cvs cgs crs))) \<and>
         (\<not> py_truthy (r_platform rule) \<and> g_platform g = YStr P \<and>
          XCCDF_PLATFORM_TO_CPE ext P = Some cpe \<and> Rule_to_xml_element ext rule = Inr el \<longrightarrow>
            Rule_to_xml_element ext (rule\<lparr>r_platform := g_platform g\<rparr>) =
              Inr (el_append el (Element ''platform'' [(''idref'', YStr cpe)] YNone YNone [])))"
proof (intro conjI impI)
  assume a: "\<not> py_truthy (r_platform rule) \<and> g_platform g = YStr P \<and>
          XCCDF_PLATFORM_TO_CPE ext P = Some cpe \<and> Rule_to_xml_element ext rule = Inr el"
  then have P: "P \<noteq> []" using assms by auto
  from a have "Rule_to_xml_element ext (rule\<lparr>r_platform := YNone\<rparr>) = Inr el"
    by (simp add: Rule_render_without_platform)
  with a add_platform_known[OF P, of ext cpe] show
    "Rule_to_xml_element ext (rule\<lparr>r_platform := g_platform g\<rparr>) =
       Inr (el_append el (Element ''platform'' [(''idref'', YStr cpe)] YNone YNone []))"
    by (subst Rule_to_xml_element_platform) simp
qed (use assms in \<open>simp_all add: Let_def\<close>)


theorem platform_pushed_down_witness:
  "py_truthy (YStr ''machine'') \<and>
   add_rule example_group (Some example_rule) =
     (Group \<lparr>g_id = ''services'', g_prodtype = YStr ''all'', g_title = YStr ''Services'',
             g_description = YStr ''All services'', g_warnings = YList [],
             g_platform = YStr ''machine''\<rparr> [] []
        [(''sshd'', example_rule\<lparr>r_platform := YStr ''machine''\<rparr>)],
      Some (example_rule\<lparr>r_platform := YStr ''machine''\<rparr>)) \<and>
   Rule_to_xml_element ext0 (example_rule\<lparr>r_platform := YStr ''machine''\<rparr>) =
     Inr (el_append example_rule_xml
            (Element ''platform'' [(''idref'', YStr ''cpe:/a:machine'')] YNone YNone []))"
proof -
  let ?g = "\<lparr>g_id = ''services'', g_prodtype = YStr ''all'', g_title = YStr ''Services'',
             g_description = YStr ''All services'', g_warnings = YList [],
             g_platform = YStr ''machine''\<rparr>"
  have t: "py_truthy (g_platform ?g)" by simp
  have n: "\<not> py_truthy (r_platform example_rule)" by (simp add: example_rule_def)
  have c: "XCCDF_PLATFORM_TO_CPE ext0 ''machine'' = Some ''cpe:/a:machine''"
    by (simp add: ext0_def)
  have i: "r_id example_rule = ''sshd''" by (simp add: example_rule_def)
  from platform_pushed_down[OF t, of example_rule "[]" "[]" "[]" _ _ _ _ "''machine''" ext0
      "''cpe:/a:machine''" example_rule_xml] n c example_rule_rendered i
  show ?thesis by (simp add: example_group_def)
qed

section \<open>The keys a parser recognises\<close>

text \<open>
  Each parser removes the keys it knows from the document and then looks at what is left.
  \<open>unrecognized ks d\<close> is the document without the keys \<open>ks\<close>, \<open>get_or\<close> reads a key
  with a default, as \<open>pop\<close> does, and \<open>present\<close> says that required keys are there. The
  \<open>parsed\<close> entities hold the fields of a document as the parsers assign them.
\<close>

definition unrecognized :: "string list \<Rightarrow> ydict \<Rightarrow> ydict" where
  "unrecognized ks d = filter (\<lambda>kv. fst kv \<notin> set (map YStr ks)) d"

definition get_or :: "ydict \<Rightarrow> string \<Rightarrow> yaml \<Rightarrow> yaml" where
  "get_or d k dflt = (case dict_get d k of None \<Rightarrow> dflt | Some v \<Rightarrow> v)"

definition present :: "ydict \<Rightarrow> string list \<Rightarrow> bool" where
  "present d ks = list_all (\<lambda>k. dict_get d k \<noteq> None) ks"

definition profile_keys :: "string list" where
  "profile_keys = [''title'', ''description'', ''extends'', ''selections'']"

definition value_keys :: "string list" where
  "value_keys = [''title'', ''description'', ''type'', ''operator'', ''interactive'',
                 ''options'', ''warnings'']"

definition group_keys :: "string list" where
  "group_keys = [''prodtype'', ''title'', ''description'', ''warnings'', ''platform'']"

definition rule_keys :: "string list" where
  "rule_keys = [''prodtype'', ''title'', ''description'', ''rationale'', ''severity'',
                ''references'', ''identifiers'', ''ocil_clause'', ''ocil'',
                ''oval_external_content'', ''warnings'', ''platform'']"

definition benchmark_keys :: "string list" where
  "benchmark_keys = [''title'', ''status'', ''description'', ''notice'', ''front-matter'',
                     ''rear-matter'', ''version'']"

definition parsed_profile :: "string \<Rightarrow> ydict \<Rightarrow> profile" where
  "parsed_profile f d =
     \<lparr>p_id = fst (splitext (basename f)), p_title = get_or d ''title'' YNone,
      p_description = get_or d ''description'' YNone, p_extends = get_or d ''extends'' YNone,
      p_selections = get_or d ''selections'' YNone\<rparr>"

definition parsed_value :: "string \<Rightarrow> ydict \<Rightarrow> bool \<Rightarrow> value" where
  "parsed_value f d flag =
     \<lparr>v_id = fst (splitext (basename f)), v_title = get_or d ''title'' YNone,
      v_description = get_or d ''description'' YNone, v_type = get_or d ''type'' YNone,
      v_operator = get_or d ''operator'' (YStr ''equals''), v_interactive = flag,
      v_options = get_or d ''options'' YNone,
      v_warnings = get_or d ''warnings'' (YList [])\<rparr>"

definition parsed_group :: "string \<Rightarrow> ydict \<Rightarrow> node" where
  "parsed_group f d =
     Group \<lparr>g_id = basename (dirname f), g_prodtype = get_or d ''prodtype'' (YStr ''all''),
            g_title = get_or d ''title'' YNone, g_description = get_or d ''description'' YNone,
            g_warnings = get_or d ''warnings'' (YList []),
            g_platform = get_or d ''platform'' YNone\<rparr> [] [] []"

definition parsed_rule :: "externals \<Rightarrow> string \<Rightarrow> ydict \<Rightarrow> rule" where
  "parsed_rule ext f d =
     \<lparr>r_id = (if basename f = ''rule.yml'' then get_rule_dir_id ext f
              else fst (splitext (basename f))),
      r_prodtype = get_or d ''prodtype'' (YStr ''all''),
      r_title = get_or d ''title'' YNone,
      r_description = get_or d ''description'' YNone,
      r_rationale = get_or d ''rationale'' YNone,
      r_severity = get_or d ''severity'' YNone,
      r_references = get_or d ''references'' (YDict []),
      r_identifiers = get_or d ''identifiers'' (YDict []),
      r_ocil_clause = get_or d ''ocil_clause'' YNone,
      r_ocil = get_or d ''ocil'' YNone,
      r_external_oval = get_or d ''oval_external_content'' YNone,
      r_warnings = get_or d ''warnings'' (YList []),
      r_platform = get_or d ''platform'' YNone\<rparr>"

definition parsed_benchmark ::
  "externals \<Rightarrow> string \<Rightarrow> ydict \<Rightarrow> ydict \<Rightarrow> string list \<Rightarrow> node" where
  "parsed_benchmark ext ident d notice cpes =
     Benchmark
       \<lparr>b_id = ident, b_title = get_or d ''title'' YNone, b_status = get_or d ''status'' YNone,
        b_description = get_or d ''description'' YNone,
        b_notice_id = get_or notice ''id'' YNone,
        b_notice_description = get_or notice ''description'' YNone,
        b_front_matter = get_or d ''front-matter'' YNone,
        b_rear_matter = get_or d ''rear-matter'' YNone, b_cpes = cpes,
        b_version = py_str (py_repr ext) (get_or d ''version'' YNone), b_profiles = [],
        b_bash_remediation_fns_group = None\<rparr>
       [(''conditional_clause'', conditional_clause)] [] []"

lemma dict_get_unrecognized:
  "dict_get (unrecognized ks d) k = (if k \<in> set ks then None else dict_get d k)"
  by (induction d) (auto simp: unrecognized_def dict_get_def)

lemma dict_del_absent: "dict_get d k = None \<Longrightarrow> dict_del d k = d"
proof -
  assume "dict_get d k = None"
  then have "YStr k \<notin> fst ` set d" by (simp add: dict_get_def map_of_eq_None_iff)
  then show ?thesis by (induction d) (auto simp: dict_del_def)
qed

lemma dict_pop_eq:
  "dict_pop d k x = (case dict_get d k of None \<Rightarrow> x | Some v \<Rightarrow> v, dict_del d k)"
  by (cases "dict_get d k") (simp_all add: dict_pop_def dict_del_absent)

lemma dict_del_plain: "dict_del d k = unrecognized [k] d"
  by (induction d) (auto simp: unrecognized_def dict_del_def)

lemma unrecognized_twice: "unrecognized ks' (unrecognized ks d) = unrecognized (ks @ ks') d"
  by (induction d) (auto simp: unrecognized_def)

lemmas dict_norm = dict_pop_eq dict_del_plain unrecognized_twice dict_get_unrecognized

lemma dict_get_update:
  "dict_get (AList.update (YStr k') v d) k = (if k = k' then Some v else dict_get d k)"
  by (simp add: dict_get_def update_conv')

lemma unrecognized_present:
  "dict_get d k = Some v \<Longrightarrow> k \<notin> set ks \<Longrightarrow> unrecognized ks d \<noteq> []"
proof -
  assume "dict_get d k = Some v" "k \<notin> set ks"
  then have "dict_get (unrecognized ks d) k = Some v" by (simp add: dict_get_unrecognized)
  then show ?thesis by (auto simp: dict_get_def)
qed

lemma unrecognized_update_present:
  "k \<notin> set ks \<Longrightarrow> unrecognized ks (AList.update (YStr k) v d) \<noteq> []"
  by (rule unrecognized_present[of _ k v]) (simp_all add: dict_get_update)

lemma v_id_conditional_clause: "v_id conditional_clause = ''conditional_clause''"
  by (simp add: conditional_clause_def Value_init_def)

lemma Profile_from_yaml_closed:
  assumes "open_and_expand ext f env = Inr (Some d)"
    and "present d [''title'', ''description'', ''selections'']"
  shows "Profile_from_yaml ext f env =
           (if unrecognized profile_keys d \<noteq> []
            then Inl (UnparsedYAML f (unrecognized profile_keys d))
            else Inr (Some (parsed_profile f d)))"
proof -
  from assms(2) obtain t de se where g:
    "dict_get d ''title'' = Some t" "dict_get d ''description'' = Some de"
    "dict_get d ''selections'' = Some se"
    by (auto simp: present_def)
  show ?thesis
    by (simp add: Profile_from_yaml_def assms(1) g Let_def split_def dict_norm Profile_init_def
          profile_keys_def get_or_def parsed_profile_def)
qed

lemma Value_from_yaml_closed:
  assumes "open_and_expand ext f env = Inr (Some d)"
    and "present d [''title'', ''description'', ''type'', ''options'']"
    and "get_or d ''operator'' (YStr ''equals'') \<in> set (map YStr possible_operators)"
    and "interactive_flag (get_or d ''interactive'' (YStr ''false'')) = Inr flag"
    and "check_warnings (get_or d ''warnings'' (YList [])) = Inr ()"
  shows "Value_from_yaml ext f env =
           (if unrecognized value_keys d \<noteq> []
            then Inl (UnparsedYAML f (unrecognized value_keys d))
            else Inr (Some (parsed_value f d flag)))"
proof -
  from assms(2) obtain t de ty op where g:
    "dict_get d ''title'' = Some t" "dict_get d ''description'' = Some de"
    "dict_get d ''type'' = Some ty" "dict_get d ''options'' = Some op"
    by (auto simp: present_def)
  show ?thesis
    using assms(3-)
    by (simp add: Value_from_yaml_def assms(1) g Let_def split_def dict_norm Value_init_def
          value_keys_def get_or_def parsed_value_def)
qed

lemma Value_from_yaml_invalid_operator:
  assumes "open_and_expand ext f env = Inr (Some d)"
    and "present d [''title'', ''description'', ''type'']"
    and "get_or d ''operator'' (YStr ''equals'') \<notin> set (map YStr possible_operators)"
  shows "Value_from_yaml ext f env =
           Inl (InvalidOperator (get_or d ''operator'' (YStr ''equals'')) f)"
proof -
  from assms(2) obtain t de ty where g:
    "dict_get d ''title'' = Some t" "dict_get d ''description'' = Some de"
    "dict_get d ''type'' = Some ty"
    by (auto simp: present_def)
  show ?thesis
    using assms(3)
    by (simp add: Value_from_yaml_def assms(1) g Let_def split_def dict_norm get_or_def)
qed

lemma Value_from_yaml_operator_fails:
  assumes "open_and_expand ext f env = Inr (Some d)"
    and "dict_get d ''operator'' = Some op"
    and "op \<notin> set (map YStr possible_operators)"
  shows "\<exists>e. Value_from_yaml ext f env = Inl e"
  using assms(2,3)
  by (simp add: Value_from_yaml_def assms(1) Let_def split_def dict_norm split: option.split)

lemma Group_from_yaml_closed:
  assumes "open_and_macro_expand ext f env = Inr (Some d)"
    and "present d [''title'', ''description'']"
    and "check_warnings (get_or d ''warnings'' (YList [])) = Inr ()"
  shows "Group_from_yaml ext f env =
           (if unrecognized group_keys d \<noteq> []
            then Inl (UnparsedYAML f (unrecognized group_keys d))
            else Inr (Some (parsed_group f d)))"
proof -
  from assms(2) obtain t de where g:
    "dict_get d ''title'' = Some t" "dict_get d ''description'' = Some de"
    by (auto simp: present_def)
  show ?thesis
    using assms(3)
    by (simp add: Group_from_yaml_def assms(1) g Let_def split_def dict_norm
          group_keys_def get_or_def parsed_group_def)
qed

lemma Rule_from_yaml_closed:
  assumes "open_and_macro_expand ext f env = Inr (Some d)"
    and "present d [''title'', ''description'', ''rationale'', ''severity'']"
    and "check_warnings (get_or d ''warnings'' (YList [])) = Inr ()"
  shows "Rule_from_yaml ext f env =
           (if unrecognized rule_keys d \<noteq> []
            then Inl (UnparsedYAML f (unrecognized rule_keys d))
            else bind_err (validate_identifiers ext (parsed_rule ext f d) f) (\<lambda>_.
                 bind_err (validate_references (parsed_rule ext f d) f) (\<lambda>_.
                 Inr (Some (parsed_rule ext f d)))))"
proof -
  from assms(2) obtain t de ra se where g:
    "dict_get d ''title'' = Some t" "dict_get d ''description'' = Some de"
    "dict_get d ''rationale'' = Some ra" "dict_get d ''severity'' = Some se"
    by (auto simp: present_def)
  have i: "(fst (splitext (basename f)) = ''rule'' \<and> snd (splitext (basename f)) = ''.yml'')
           = (basename f = ''rule.yml'')"
    by (rule splitext_rule_yml)
  show ?thesis
    using assms(3)
    by (simp add: Rule_from_yaml_def assms(1) g i Let_def split_def dict_norm Rule_init_def
          rule_keys_def get_or_def parsed_rule_def)
qed

lemma Benchmark_from_yaml_closed:
  assumes "open_and_macro_expand ext f env = Inr (Some d)"
    and "present d [''title'', ''status'', ''description'', ''front-matter'', ''rear-matter'',
                    ''version'']"
    and "dict_get d ''notice'' = Some (YDict notice)"
    and "present notice [''id'', ''description'']"
    and "unrecognized [''id'', ''description''] notice = []"
  shows "Benchmark_from_yaml ext f ident env =
           (if unrecognized benchmark_keys d \<noteq> []
            then Inl (UnparsedYAML f (unrecognized benchmark_keys d))
            else (case env of
                    None \<Rightarrow> Inr (Some (parsed_benchmark ext ident d notice []))
                  | Some py \<Rightarrow>
                      if py = [] then Inr (Some (parsed_benchmark ext ident d notice []))
                      else bind_err (product_cpes ext py) (\<lambda>cpes.
                             Inr (Some (parsed_benchmark ext ident d notice cpes)))))"
proof -
  from assms(2,4) obtain t s de ni nd fm rm v where g:
    "dict_get d ''title'' = Some t" "dict_get d ''status'' = Some s"
    "dict_get d ''description'' = Some de" "dict_get notice ''id'' = Some ni"
    "dict_get notice ''description'' = Some nd" "dict_get d ''front-matter'' = Some fm"
    "dict_get d ''rear-matter'' = Some rm" "dict_get d ''version'' = Some v"
    by (auto simp: present_def)
  show ?thesis
    by (simp add: Benchmark_from_yaml_def assms(1,3,5) g Let_def split_def dict_norm
          Benchmark_init_def benchmark_keys_def get_or_def parsed_benchmark_def
          v_id_conditional_clause split: option.split)
qed

lemma Benchmark_from_yaml_notice_rest:
  assumes "open_and_macro_expand ext f env = Inr (Some d)"
    and "present d [''title'', ''status'', ''description'', ''front-matter'', ''rear-matter'',
                    ''version'']"
    and "dict_get d ''notice'' = Some (YDict notice)"
    and "present notice [''id'', ''description'']"
    and "unrecognized [''id'', ''description''] notice \<noteq> []"
  shows "Benchmark_from_yaml ext f ident env =
           Inl (UnparsedYAML f
                  (unrecognized [''front-matter'', ''rear-matter'', ''version'']
                     (AList.update (YStr ''notice'')
                        (YDict (unrecognized [''id'', ''description''] notice))
                        (unrecognized [''title'', ''status'', ''description''] d))))"
proof -
  from assms(2,4) obtain t s de ni nd fm rm v where g:
    "dict_get d ''title'' = Some t" "dict_get d ''status'' = Some s"
    "dict_get d ''description'' = Some de" "dict_get notice ''id'' = Some ni"
    "dict_get notice ''description'' = Some nd" "dict_get d ''front-matter'' = Some fm"
    "dict_get d ''rear-matter'' = Some rm" "dict_get d ''version'' = Some v"
    by (auto simp: present_def)
  have n: "unrecognized [''front-matter'', ''rear-matter'', ''version'']
             (AList.update (YStr ''notice'')
                (YDict (unrecognized [''id'', ''description''] notice))
                (unrecognized [''title'', ''status'', ''description''] d)) \<noteq> []"
    by (rule unrecognized_update_present) simp
  show ?thesis
    using n
    by (simp add: Benchmark_from_yaml_def assms(1,3,5) g Let_def split_def dict_norm
          Benchmark_init_def dict_get_update)
qed

section \<open>The operator of a value\<close>

lemma add_sub_element_attrib:
  "add_sub_element ext parent t data = Inr (p, e) \<Longrightarrow> x_attrib p = x_attrib parent"
  by (auto simp: add_sub_element_def Let_def el_append_def split: option.splits)

lemma add_warning_element_attrib:
  "add_warning_element ext element w = Inr element' \<Longrightarrow> x_attrib element' = x_attrib element"
  by (induction ext element w rule: add_warning_element.induct)
     (auto simp: el_sync_last_def elim!: bind_errE dest!: add_sub_element_attrib)

lemma add_warning_loop_attrib:
  "add_warning_loop ext element ws = Inr element' \<Longrightarrow> x_attrib element' = x_attrib element"
proof (induction ws arbitrary: element)
  case Nil
  then show ?case by simp
next
  case (Cons w rest)
  from Cons.prems obtain e1 where
    a: "add_warning_element ext element w = Inr e1" and
    b: "add_warning_loop ext e1 rest = Inr element'"
    by (auto elim!: bind_errE)
  from add_warning_element_attrib[OF a] Cons.IH[OF b] show ?case by simp
qed

lemma add_warning_elements_attrib:
  "add_warning_elements ext element ws = Inr element' \<Longrightarrow> x_attrib element' = x_attrib element"
  by (auto simp: add_warning_elements_def elim!: bind_errE dest: add_warning_loop_attrib)

lemma Value_options_loop_attrib:
  "x_attrib (Value_options_loop ext val items) = x_attrib val"
  by (induction ext val items rule: Value_options_loop.induct)
     (simp_all add: ET_SubElement_def el_sync_last_def el_append_def Let_def)

lemma map_of_update: "map_of (AList.update k v al) k' = (if k' = k then Some v else map_of al k')"
  by (simp add: update_conv')

lemma Value_operator_attribute:
  assumes "Value_to_xml_element ext self = Inr el"
  shows "map_of (x_attrib el) ''operator'' =
           (if v_operator self = YStr ''equals'' then None else Some (v_operator self))"
  using assms
  by (auto simp: Value_to_xml_element_def Let_def ET_SubElement_def el_sync_last_def
        el_append_def el_set_def ET_Element_def Value_options_loop_attrib
        elim!: bind_errE dest!: add_sub_element_attrib add_warning_elements_attrib
        split: if_splits)

definition example_value_xml :: xml where
  "example_value_xml =
     Element ''Value''
       [(''id'', YStr ''timeout''), (''type'', YStr ''number''),
        (''operator'', YStr ''less than'')]
       YNone YNone
       [Element ''title'' [] (YStr ''Timeout'') YNone [],
        Element ''description'' [] (YStr ''Idle timeout'') YNone [],
        Element ''value'' [] (YStr ''300'') YNone []]"

definition conditional_clause_xml :: xml where
  "conditional_clause_xml =
     Element ''Value'' [(''id'', YStr ''conditional_clause''), (''type'', YStr ''string'')]
       YNone YNone
       [Element ''title'' [] (YStr ''A conditional clause for check statements.'') YNone [],
        Element ''description'' [] (YStr ''A conditional clause for check statements.'')
          YNone [],
        Element ''value'' [(''selector'', YStr [])] (YStr ''This is a placeholder'') YNone []]"

lemma example_value_rendered:
  "Value_to_xml_element ext0 example_value = Inr example_value_xml"
  by code_simp

lemma conditional_clause_rendered:
  "Value_to_xml_element ext0 conditional_clause = Inr conditional_clause_xml"
  by code_simp

lemma get_or_Some: "dict_get d k = Some v \<Longrightarrow> get_or d k x = v"
  by (simp add: get_or_def)

text \<open>
  C7. The operators are the seven of the list. A Value descriptor whose operator is not
  among them does not parse; once title, description and type are there, the error is
  the one about the operator. A descriptor whose operator is among them, and which is
  well formed otherwise, parses into the value with that operator. The rendered element
  has an operator attribute, the operator of the value, exactly when that operator is
  not \<open>equals\<close>.
\<close>

theorem value_operator_checked:
  "possible_operators =
     [''equals'', ''not equal'', ''greater than'', ''less than'', ''greater than or equal'',
      ''less than or equal'', ''pattern match''] \<and>
   (open_and_expand ext f env = Inr (Some d) \<and> dict_get d ''operator'' = Some opr \<and>
    opr \<notin> set (map YStr possible_operators) \<longrightarrow>
      (\<exists>e. Value_from_yaml ext f env = Inl e)) \<and>
   (open_and_expand ext f env = Inr (Some d) \<and>
    present d [''title'', ''description'', ''type''] \<and>
    dict_get d ''operator'' = Some opr \<and> opr \<notin> set (map YStr possible_operators) \<longrightarrow>
      Value_from_yaml ext f env = Inl (InvalidOperator opr f)) \<and>
   (open_and_expand ext f env = Inr (Some d) \<and>
    present d [''title'', ''description'', ''type'', ''options''] \<and>
    dict_get d ''operator'' = Some opr \<and> opr \<in> set (map YStr possible_operators) \<and>
    interactive_flag (get_or d ''interactive'' (YStr ''false'')) = Inr flag \<and>
    check_warnings (get_or d ''warnings'' (YList [])) = Inr () \<and>
    unrecognized value_keys d = [] \<longrightarrow>
      Value_from_yaml ext f env = Inr (Some (parsed_value f d flag)) \<and>
      v_operator (parsed_value f d flag) = opr) \<and>
   (Value_to_xml_element ext v = Inr el \<longrightarrow>
      map_of (x_attrib el) ''operator'' =
        (if v_operator v = YStr ''equals'' then None else Some (v_operator v)))"
proof (intro conjI impI)
  show "possible_operators =
     [''equals'', ''not equal'', ''greater than'', ''less than'', ''greater than or equal'',
      ''less than or equal'', ''pattern match'']"
    by (simp add: possible_operators_def)
next
  assume "open_and_expand ext f env = Inr (Some d) \<and> dict_get d ''operator'' = Some opr \<and>
    opr \<notin> set (map YStr possible_operators)"
  then show "\<exists>e. Value_from_yaml ext f env = Inl e"
    using Value_from_yaml_operator_fails by blast
next
  assume a: "open_and_expand ext f env = Inr (Some d) \<and>
    present d [''title'', ''description'', ''type''] \<and>
    dict_get d ''operator'' = Some opr \<and> opr \<notin> set (map YStr possible_operators)"
  then have "get_or d ''operator'' (YStr ''equals'') = opr" by (simp add: get_or_Some)
  with a Value_from_yaml_invalid_operator[of ext f env d]
  show "Value_from_yaml ext f env = Inl (InvalidOperator opr f)" by simp
next
  assume a: "open_and_expand ext f env = Inr (Some d) \<and>
    present d [''title'', ''description'', ''type'', ''options''] \<and>
    dict_get d ''operator'' = Some opr \<and> opr \<in> set (map YStr possible_operators) \<and>
    interactive_flag (get_or d ''interactive'' (YStr ''false'')) = Inr flag \<and>
    check_warnings (get_or d ''warnings'' (YList [])) = Inr () \<and>
    unrecognized value_keys d = []"
  then have g: "get_or d ''operator'' (YStr ''equals'') = opr" by (simp add: get_or_Some)
  with a Value_from_yaml_closed[of ext f env d flag]
  show "Value_from_yaml ext f env = Inr (Some (parsed_value f d flag))" by simp
  from g show "v_operator (parsed_value f d flag) = opr" by (simp add: parsed_value_def)
next
  assume "Value_to_xml_element ext v = Inr el"
  then show "map_of (x_attrib el) ''operator'' =
        (if v_operator v = YStr ''equals'' then None else Some (v_operator v))"
    by (rule Value_operator_attribute)
qed

theorem value_operator_checked_witness:
  "Value_from_yaml ext0 ''guide/services/bad.var'' None =
     Inl (InvalidOperator (YStr ''approximately'') ''guide/services/bad.var'') \<and>
   Value_from_yaml ext0 ''guide/services/timeout.var'' None = Inr (Some example_value) \<and>
   v_operator example_value = YStr ''less than'' \<and>
   Value_to_xml_element ext0 example_value = Inr example_value_xml \<and>
   map_of (x_attrib example_value_xml) ''operator'' = Some (YStr ''less than'') \<and>
   Value_to_xml_element ext0 conditional_clause = Inr conditional_clause_xml \<and>
   map_of (x_attrib conditional_clause_xml) ''operator'' = None"
proof -
  have l1: "open_and_expand ext0 ''guide/services/bad.var'' None = Inr (Some bad_operator_doc)"
    by code_simp
  have p1: "present bad_operator_doc [''title'', ''description'', ''type'']" by code_simp
  have o1: "dict_get bad_operator_doc ''operator'' = Some (YStr ''approximately'')"
    by code_simp
  have n1: "YStr ''approximately'' \<notin> set (map YStr possible_operators)" by code_simp
  have a: "Value_from_yaml ext0 ''guide/services/bad.var'' None =
             Inl (InvalidOperator (YStr ''approximately'') ''guide/services/bad.var'')"
    using value_operator_checked[where ext = ext0 and f = "''guide/services/bad.var''"
        and env = None and d = bad_operator_doc and opr = "YStr ''approximately''"]
      l1 p1 o1 n1 by blast
  have l2: "open_and_expand ext0 ''guide/services/timeout.var'' None = Inr (Some value_doc)"
    by code_simp
  have p2: "present value_doc [''title'', ''description'', ''type'', ''options'']"
    by code_simp
  have o2: "dict_get value_doc ''operator'' = Some (YStr ''less than'')" by code_simp
  have n2: "YStr ''less than'' \<in> set (map YStr possible_operators)" by code_simp
  have i2: "interactive_flag (get_or value_doc ''interactive'' (YStr ''false'')) = Inr False"
    by code_simp
  have w2: "check_warnings (get_or value_doc ''warnings'' (YList [])) = Inr ()" by code_simp
  have u2: "unrecognized value_keys value_doc = []" by code_simp
  have e2: "parsed_value ''guide/services/timeout.var'' value_doc False = example_value"
    by code_simp
  have "Value_from_yaml ext0 ''guide/services/timeout.var'' None =
          Inr (Some (parsed_value ''guide/services/timeout.var'' value_doc False)) \<and>
        v_operator (parsed_value ''guide/services/timeout.var'' value_doc False) =
          YStr ''less than''"
    using value_operator_checked[where ext = ext0 and f = "''guide/services/timeout.var''"
        and env = None and d = value_doc and opr = "YStr ''less than''" and flag = False]
      l2 p2 o2 n2 i2 w2 u2 by blast
  then have b: "Value_from_yaml ext0 ''guide/services/timeout.var'' None =
                  Inr (Some example_value)"
    and c: "v_operator example_value = YStr ''less than''"
    by (simp_all add: e2)
  have d: "map_of (x_attrib example_value_xml) ''operator'' =
             (if v_operator example_value = YStr ''equals'' then None
              else Some (v_operator example_value))"
    using value_operator_checked[where ext = ext0 and v = example_value
        and el = example_value_xml] example_value_rendered by blast
  have e: "map_of (x_attrib conditional_clause_xml) ''operator'' =
             (if v_operator conditional_clause = YStr ''equals'' then None
              else Some (v_operator conditional_clause))"
    using value_operator_checked[where ext = ext0 and v = conditional_clause
        and el = conditional_clause_xml] conditional_clause_rendered by blast
  have k: "v_operator conditional_clause = YStr ''equals''" by code_simp
  from a b c d e k example_value_rendered conditional_clause_rendered
  show ?thesis by simp
qed

section \<open>The identifiers of a rule\<close>

text \<open>What the validation asks of one identifier, in the words of the specification.\<close>

fun identifier_ok :: "externals \<Rightarrow> yaml \<times> yaml \<Rightarrow> bool" where
  "identifier_ok ext (YStr k, YStr v) =
     (py_strip v \<noteq> [] \<and> (if take 3 k = ''cce'' then is_cce_valid ext (''CCE-'' @ v) else True))"
| "identifier_ok ext kv = False"

lemma validate_identifier_ok:
  "validate_identifier ext f kv = Inr () \<Longrightarrow> identifier_ok ext kv"
  by (induction ext f kv rule: validate_identifier.induct) (auto split: if_splits)

lemma validate_identifiers_loop_ok:
  "validate_identifiers_loop ext f items = Inr () \<Longrightarrow> list_all (identifier_ok ext) items"
  by (induction items) (auto elim!: bind_errE dest: validate_identifier_ok simp del: validate_identifier.simps)

lemma Rule_from_yaml_identifiers:
  assumes "Rule_from_yaml ext f env = Inr (Some r)"
  shows "\<exists>items. r_identifiers r = YDict items \<and> list_all (identifier_ok ext) items"
proof -
  from assms have "validate_identifiers ext r f = Inr ()"
    by (auto simp: Rule_from_yaml_def Let_def split_def simp del: required_key.simps
          elim!: bind_errE split: option.splits if_splits)
  then show ?thesis
    by (cases "r_identifiers r")
       (auto simp: validate_identifiers_def dest: validate_identifiers_loop_ok)
qed

lemma Group_from_yaml_identifiers:
  assumes "open_and_macro_expand ext f env = Inr (Some d)"
    and "dict_get d ''identifiers'' = Some v"
  shows "\<exists>e. Group_from_yaml ext f env = Inl e"
  using assms(2) unrecognized_present[OF assms(2), of group_keys]
  by (auto simp: Group_from_yaml_def assms(1) Let_def split_def dict_norm group_keys_def
        bind_err_def split: option.splits sum.splits)

lemma Rule_from_yaml_identifiers_field:
  assumes "open_and_macro_expand ext f env = Inr (Some d)"
    and "Rule_from_yaml ext f env = Inr (Some r)"
  shows "r_identifiers r = get_or d ''identifiers'' (YDict [])"
  using assms(2)
  by (auto simp: Rule_from_yaml_def assms(1) Let_def split_def dict_norm get_or_def
        simp del: required_key.simps elim!: bind_errE split: if_splits)

text \<open>
  C2. A rule that parses has a dictionary of identifiers, each entry of which has a string
  for key and for value, a value that is not blank, and a valid CCE code when the key
  begins with \<open>cce\<close>. The dictionary is the one of the descriptor, and it is empty when
  the descriptor has no \<open>identifiers\<close> key. A group has no identifiers: a group
  descriptor with an \<open>identifiers\<close> key does not parse.
\<close>

theorem rule_identifiers_validated:
  "(Rule_from_yaml ext f env = Inr (Some r) \<longrightarrow>
      (\<exists>items. r_identifiers r = YDict items \<and> list_all (identifier_ok ext) items)) \<and>
   (open_and_macro_expand ext f env = Inr (Some d) \<and>
    Rule_from_yaml ext f env = Inr (Some r) \<longrightarrow>
      r_identifiers r = get_or d ''identifiers'' (YDict [])) \<and>
   (open_and_macro_expand ext f env = Inr (Some d) \<and> dict_get d ''identifiers'' = Some v \<longrightarrow>
      (\<exists>e. Group_from_yaml ext f env = Inl e))"
  using Rule_from_yaml_identifiers Rule_from_yaml_identifiers_field Group_from_yaml_identifiers
  by blast

theorem rule_identifiers_validated_witness:
  "Rule_from_yaml ext0 ''guide/services/sshd/rule.yml'' None = Inr (Some example_rule) \<and>
   r_identifiers example_rule =
     YDict [(YStr ''cce'', YStr ''27445-6''), (YStr ''stigid@rhel7'', YStr ''040370'')] \<and>
   list_all (identifier_ok ext0)
     [(YStr ''cce'', YStr ''27445-6''), (YStr ''stigid@rhel7'', YStr ''040370'')] \<and>
   Group_from_yaml ext0 ''guide/tagged/group.yml'' None =
     Inl (UnparsedYAML ''guide/tagged/group.yml''
            [(YStr ''identifiers'', YDict [(YStr ''cce'', YStr ''27445-6'')])])"
proof -
  have l: "open_and_macro_expand ext0 ''guide/services/sshd/rule.yml'' None =
             Inr (Some rule_doc)"
    by code_simp
  have g: "get_or rule_doc ''identifiers'' (YDict []) =
             YDict [(YStr ''cce'', YStr ''27445-6''), (YStr ''stigid@rhel7'', YStr ''040370'')]"
    by code_simp
  have a: "r_identifiers example_rule =
     YDict [(YStr ''cce'', YStr ''27445-6''), (YStr ''stigid@rhel7'', YStr ''040370'')]"
    using rule_identifiers_validated[where ext = ext0
        and f = "''guide/services/sshd/rule.yml''" and env = None and r = example_rule
        and d = rule_doc] l g example_rule_parsed by simp
  have "\<exists>items. r_identifiers example_rule = YDict items \<and>
                list_all (identifier_ok ext0) items"
    using rule_identifiers_validated[where ext = ext0
        and f = "''guide/services/sshd/rule.yml''" and env = None and r = example_rule]
      example_rule_parsed by blast
  with a have b: "list_all (identifier_ok ext0)
     [(YStr ''cce'', YStr ''27445-6''), (YStr ''stigid@rhel7'', YStr ''040370'')]"
    by simp
  have l3: "open_and_macro_expand ext0 ''guide/tagged/group.yml'' None =
              Inr (Some tagged_group_doc)"
    by code_simp
  have i3: "dict_get tagged_group_doc ''identifiers'' =
              Some (YDict [(YStr ''cce'', YStr ''27445-6'')])"
    by code_simp
  have "\<exists>e. Group_from_yaml ext0 ''guide/tagged/group.yml'' None = Inl e"
    using rule_identifiers_validated[where ext = ext0 and f = "''guide/tagged/group.yml''"
        and env = None and d = tagged_group_doc
        and v = "YDict [(YStr ''cce'', YStr ''27445-6'')]"] l3 i3 by blast
  moreover have "Group_from_yaml ext0 ''guide/tagged/group.yml'' None =
     Inl (UnparsedYAML ''guide/tagged/group.yml''
            [(YStr ''identifiers'', YDict [(YStr ''cce'', YStr ''27445-6'')])])"
    by code_simp
  ultimately show ?thesis using a b example_rule_parsed by simp
qed

theorem rule_without_identifiers_counterexample:
  "Rule_from_yaml ext0 ''guide/services/ext.rule'' None = Inr (Some external_rule) \<and>
   r_identifiers external_rule = YDict [] \<and>
   Group_from_yaml ext0 ''guide/services/group.yml'' None = Inr (Some example_group) \<and>
   open_and_macro_expand ext0 ''guide/services/group.yml'' None = Inr (Some group_doc) \<and>
   dict_get group_doc ''identifiers'' = None"
proof -
  have "r_identifiers external_rule = YDict []" by code_simp
  moreover have "open_and_macro_expand ext0 ''guide/services/group.yml'' None =
                   Inr (Some group_doc)"
    by code_simp
  moreover have "dict_get group_doc ''identifiers'' = None" by code_simp
  ultimately show ?thesis using external_rule_parsed example_group_parsed by simp
qed

section \<open>Leftover keys\<close>

definition example_benchmark :: node where
  "example_benchmark =
     Benchmark
       \<lparr>b_id = ''product-name'', b_title = YStr ''Guide'', b_status = YStr ''draft'',
        b_description = YStr ''The guide'', b_notice_id = YStr ''terms'',
        b_notice_description = YStr ''Do not rely'', b_front_matter = YStr ''Front'',
        b_rear_matter = YStr ''Rear'', b_cpes = [], b_version = ''1'', b_profiles = [],
        b_bash_remediation_fns_group = None\<rparr>
       [(''conditional_clause'', conditional_clause)] [] []"

text \<open>
  C1. With the required fields present, and the checks that come before the test of the
  leftover keys passed (the operator, the interactive flag and the warnings of a value,
  the warnings of a group or of a rule, the notice of a benchmark), every parser fails
  with the error that names the file and the leftover keys exactly when a key that it
  does not recognise is in the document. When there is none, a profile, a value and a
  group parse into the entity that holds the fields of the document; a rule then goes
  through the validation of its identifiers and of its references, and a benchmark
  through the lookup of the CPEs of the product. For a benchmark a leftover key inside
  the notice keeps the notice in the document, which is then not empty.
\<close>

theorem leftover_keys_rejected:
  "(open_and_expand ext f env = Inr (Some d) \<and>
    present d [''title'', ''description'', ''selections''] \<longrightarrow>
      Profile_from_yaml ext f env =
        (if unrecognized profile_keys d \<noteq> []
         then Inl (UnparsedYAML f (unrecognized profile_keys d))
         else Inr (Some (parsed_profile f d)))) \<and>
   (open_and_expand ext f env = Inr (Some d) \<and>
    present d [''title'', ''description'', ''type'', ''options''] \<and>
    get_or d ''operator'' (YStr ''equals'') \<in> set (map YStr possible_operators) \<and>
    interactive_flag (get_or d ''interactive'' (YStr ''false'')) = Inr flag \<and>
    check_warnings (get_or d ''warnings'' (YList [])) = Inr () \<longrightarrow>
      Value_from_yaml ext f env =
        (if unrecognized value_keys d \<noteq> []
         then Inl (UnparsedYAML f (unrecognized value_keys d))
         else Inr (Some (parsed_value f d flag)))) \<and>
   (open_and_macro_expand ext f env = Inr (Some d) \<and>
    present d [''title'', ''description''] \<and>
    check_warnings (get_or d ''warnings'' (YList [])) = Inr () \<longrightarrow>
      Group_from_yaml ext f env =
        (if unrecognized group_keys d \<noteq> []
         then Inl (UnparsedYAML f (unrecognized group_keys d))
         else Inr (Some (parsed_group f d)))) \<and>
   (open_and_macro_expand ext f env = Inr (Some d) \<and>
    present d [''title'', ''description'', ''rationale'', ''severity''] \<and>
    check_warnings (get_or d ''warnings'' (YList [])) = Inr () \<longrightarrow>
      Rule_from_yaml ext f env =
        (if unrecognized rule_keys d \<noteq> []
         then Inl (UnparsedYAML f (unrecognized rule_keys d))
         else bind_err (validate_identifiers ext (parsed_rule ext f d) f) (\<lambda>_.
              bind_err (validate_references (parsed_rule ext f d) f) (\<lambda>_.
              Inr (Some (parsed_rule ext f d)))))) \<and>
   (open_and_macro_expand ext f env = Inr (Some d) \<and>
    present d [''title'', ''status'', ''description'', ''front-matter'', ''rear-matter'',
               ''version''] \<and>
    dict_get d ''notice'' = Some (YDict notice) \<and>
    present notice [''id'', ''description''] \<and>
    unrecognized [''id'', ''description''] notice = [] \<longrightarrow>
      Benchmark_from_yaml ext f ident env =
        (if unrecognized benchmark_keys d \<noteq> []
         then Inl (UnparsedYAML f (unrecognized benchmark_keys d))
         else (case env of
                 None \<Rightarrow> Inr (Some (parsed_benchmark ext ident d notice []))
               | Some py \<Rightarrow>
                   if py = [] then Inr (Some (parsed_benchmark ext ident d notice []))
                   else bind_err (product_cpes ext py) (\<lambda>cpes.
                          Inr (Some (parsed_benchmark ext ident d notice cpes)))))) \<and>
   (open_and_macro_expand ext f env = Inr (Some d) \<and>
    present d [''title'', ''status'', ''description'', ''front-matter'', ''rear-matter'',
               ''version''] \<and>
    dict_get d ''notice'' = Some (YDict notice) \<and>
    present notice [''id'', ''description''] \<and>
    unrecognized [''id'', ''description''] notice \<noteq> [] \<longrightarrow>
      Benchmark_from_yaml ext f ident env =
        Inl (UnparsedYAML f
               (unrecognized [''front-matter'', ''rear-matter'', ''version'']
                  (AList.update (YStr ''notice'')
                     (YDict (unrecognized [''id'', ''description''] notice))
                     (unrecognized [''title'', ''status'', ''description''] d)))))"
proof (intro conjI impI)
  assume "open_and_expand ext f env = Inr (Some d) \<and>
    present d [''title'', ''description'', ''selections'']"
  then show "Profile_from_yaml ext f env =
        (if unrecognized profile_keys d \<noteq> []
         then Inl (UnparsedYAML f (unrecognized profile_keys d))
         else Inr (Some (parsed_profile f d)))"
    using Profile_from_yaml_closed by blast
next
  assume "open_and_expand ext f env = Inr (Some d) \<and>
    present d [''title'', ''description'', ''type'', ''options''] \<and>
    get_or d ''operator'' (YStr ''equals'') \<in> set (map YStr possible_operators) \<and>
    interactive_flag (get_or d ''interactive'' (YStr ''false'')) = Inr flag \<and>
    check_warnings (get_or d ''warnings'' (YList [])) = Inr ()"
  then show "Value_from_yaml ext f env =
        (if unrecognized value_keys d \<noteq> []
         then Inl (UnparsedYAML f (unrecognized value_keys d))
         else Inr (Some (parsed_value f d flag)))"
    using Value_from_yaml_closed by blast
next
  assume "open_and_macro_expand ext f env = Inr (Some d) \<and>
    present d [''title'', ''description''] \<and>
    check_warnings (get_or d ''warnings'' (YList [])) = Inr ()"
  then show "Group_from_yaml ext f env =
        (if unrecognized group_keys d \<noteq> []
         then Inl (UnparsedYAML f (unrecognized group_keys d))
         else Inr (Some (parsed_group f d)))"
    using Group_from_yaml_closed by blast
next
  assume "open_and_macro_expand ext f env = Inr (Some d) \<and>
    present d [''title'', ''description'', ''rationale'', ''severity''] \<and>
    check_warnings (get_or d ''warnings'' (YList [])) = Inr ()"
  then show "Rule_from_yaml ext f env =
        (if unrecognized rule_keys d \<noteq> []
         then Inl (UnparsedYAML f (unrecognized rule_keys d))
         else bind_err (validate_identifiers ext (parsed_rule ext f d) f) (\<lambda>_.
              bind_err (validate_references (parsed_rule ext f d) f) (\<lambda>_.
              Inr (Some (parsed_rule ext f d)))))"
    using Rule_from_yaml_closed by blast
next
  assume "open_and_macro_expand ext f env = Inr (Some d) \<and>
    present d [''title'', ''status'', ''description'', ''front-matter'', ''rear-matter'',
               ''version''] \<and>
    dict_get d ''notice'' = Some (YDict notice) \<and>
    present notice [''id'', ''description''] \<and>
    unrecognized [''id'', ''description''] notice = []"
  then show "Benchmark_from_yaml ext f ident env =
        (if unrecognized benchmark_keys d \<noteq> []
         then Inl (UnparsedYAML f (unrecognized benchmark_keys d))
         else (case env of
                 None \<Rightarrow> Inr (Some (parsed_benchmark ext ident d notice []))
               | Some py \<Rightarrow>
                   if py = [] then Inr (Some (parsed_benchmark ext ident d notice []))
                   else bind_err (product_cpes ext py) (\<lambda>cpes.
                          Inr (Some (parsed_benchmark ext ident d notice cpes)))))"
    using Benchmark_from_yaml_closed by blast
next
  assume "open_and_macro_expand ext f env = Inr (Some d) \<and>
    present d [''title'', ''status'', ''description'', ''front-matter'', ''rear-matter'',
               ''version''] \<and>
    dict_get d ''notice'' = Some (YDict notice) \<and>
    present notice [''id'', ''description''] \<and>
    unrecognized [''id'', ''description''] notice \<noteq> []"
  then show "Benchmark_from_yaml ext f ident env =
        Inl (UnparsedYAML f
               (unrecognized [''front-matter'', ''rear-matter'', ''version'']
                  (AList.update (YStr ''notice'')
                     (YDict (unrecognized [''id'', ''description''] notice))
                     (unrecognized [''title'', ''status'', ''description''] d))))"
    using Benchmark_from_yaml_notice_rest by blast
qed

theorem leftover_keys_rejected_witness:
  "Profile_from_yaml ext0 ''profiles/ospp.profile'' None = Inr (Some example_profile) \<and>
   Value_from_yaml ext0 ''guide/services/typo.var'' None =
     Inl (UnparsedYAML ''guide/services/typo.var'' [(YStr ''interactiv'', YStr ''true'')]) \<and>
   Value_from_yaml ext0 ''guide/services/timeout.var'' None = Inr (Some example_value) \<and>
   Group_from_yaml ext0 ''guide/services/group.yml'' None = Inr (Some example_group) \<and>
   Group_from_yaml ext0 ''guide/tagged/group.yml'' None =
     Inl (UnparsedYAML ''guide/tagged/group.yml''
            [(YStr ''identifiers'', YDict [(YStr ''cce'', YStr ''27445-6'')])]) \<and>
   Rule_from_yaml ext0 ''guide/services/sshd/rule.yml'' None = Inr (Some example_rule) \<and>
   Benchmark_from_yaml ext0 ''guide/benchmark.yml'' ''product-name'' None =
     Inr (Some example_benchmark)"
proof -
  have p: "Profile_from_yaml ext0 ''profiles/ospp.profile'' None = Inr (Some example_profile)"
  proof -
    have l: "open_and_expand ext0 ''profiles/ospp.profile'' None = Inr (Some profile_doc)"
      by code_simp
    have q: "present profile_doc [''title'', ''description'', ''selections'']" by code_simp
    have u: "unrecognized profile_keys profile_doc = []" by code_simp
    have e: "parsed_profile ''profiles/ospp.profile'' profile_doc = example_profile"
      by code_simp
    have "Profile_from_yaml ext0 ''profiles/ospp.profile'' None =
            (if unrecognized profile_keys profile_doc \<noteq> []
             then Inl (UnparsedYAML ''profiles/ospp.profile''
                         (unrecognized profile_keys profile_doc))
             else Inr (Some (parsed_profile ''profiles/ospp.profile'' profile_doc)))"
      using leftover_keys_rejected[where ext = ext0 and f = "''profiles/ospp.profile''"
          and env = None and d = profile_doc] l q by blast
    then show ?thesis by (simp add: u e)
  qed
  have t: "Value_from_yaml ext0 ''guide/services/typo.var'' None =
     Inl (UnparsedYAML ''guide/services/typo.var'' [(YStr ''interactiv'', YStr ''true'')])"
  proof -
    have l: "open_and_expand ext0 ''guide/services/typo.var'' None = Inr (Some typo_value_doc)"
      by code_simp
    have q: "present typo_value_doc [''title'', ''description'', ''type'', ''options'']"
      by code_simp
    have o: "get_or typo_value_doc ''operator'' (YStr ''equals'')
               \<in> set (map YStr possible_operators)"
      by code_simp
    have i: "interactive_flag (get_or typo_value_doc ''interactive'' (YStr ''false'')) =
               Inr False"
      by code_simp
    have w: "check_warnings (get_or typo_value_doc ''warnings'' (YList [])) = Inr ()"
      by code_simp
    have u: "unrecognized value_keys typo_value_doc = [(YStr ''interactiv'', YStr ''true'')]"
      by code_simp
    have "Value_from_yaml ext0 ''guide/services/typo.var'' None =
            (if unrecognized value_keys typo_value_doc \<noteq> []
             then Inl (UnparsedYAML ''guide/services/typo.var''
                         (unrecognized value_keys typo_value_doc))
             else Inr (Some (parsed_value ''guide/services/typo.var'' typo_value_doc False)))"
      using leftover_keys_rejected[where ext = ext0 and f = "''guide/services/typo.var''"
          and env = None and d = typo_value_doc and flag = False] l q o i w by blast
    then show ?thesis by (simp add: u)
  qed
  have v: "Value_from_yaml ext0 ''guide/services/timeout.var'' None = Inr (Some example_value)"
  proof -
    have l: "open_and_expand ext0 ''guide/services/timeout.var'' None = Inr (Some value_doc)"
      by code_simp
    have q: "present value_doc [''title'', ''description'', ''type'', ''options'']"
      by code_simp
    have o: "get_or value_doc ''operator'' (YStr ''equals'')
               \<in> set (map YStr possible_operators)"
      by code_simp
    have i: "interactive_flag (get_or value_doc ''interactive'' (YStr ''false'')) = Inr False"
      by code_simp
    have w: "check_warnings (get_or value_doc ''warnings'' (YList [])) = Inr ()"
      by code_simp
    have u: "unrecognized value_keys value_doc = []" by code_simp
    have e: "parsed_value ''guide/services/timeout.var'' value_doc False = example_value"
      by code_simp
    have "Value_from_yaml ext0 ''guide/services/timeout.var'' None =
            (if unrecognized value_keys value_doc \<noteq> []
             then Inl (UnparsedYAML ''guide/services/timeout.var''
                         (unrecognized value_keys value_doc))
             else Inr (Some (parsed_value ''guide/services/timeout.var'' value_doc False)))"
      using leftover_keys_rejected[where ext = ext0 and f = "''guide/services/timeout.var''"
          and env = None and d = value_doc and flag = False] l q o i w by blast
    then show ?thesis by (simp add: u e)
  qed
  have g: "Group_from_yaml ext0 ''guide/services/group.yml'' None = Inr (Some example_group)"
  proof -
    have l: "open_and_macro_expand ext0 ''guide/services/group.yml'' None =
               Inr (Some group_doc)"
      by code_simp
    have q: "present group_doc [''title'', ''description'']" by code_simp
    have w: "check_warnings (get_or group_doc ''warnings'' (YList [])) = Inr ()"
      by code_simp
    have u: "unrecognized group_keys group_doc = []" by code_simp
    have e: "parsed_group ''guide/services/group.yml'' group_doc = example_group"
      by code_simp
    have "Group_from_yaml ext0 ''guide/services/group.yml'' None =
            (if unrecognized group_keys group_doc \<noteq> []
             then Inl (UnparsedYAML ''guide/services/group.yml''
                         (unrecognized group_keys group_doc))
             else Inr (Some (parsed_group ''guide/services/group.yml'' group_doc)))"
      using leftover_keys_rejected[where ext = ext0 and f = "''guide/services/group.yml''"
          and env = None and d = group_doc] l q w by blast
    then show ?thesis by (simp add: u e)
  qed
  have h: "Group_from_yaml ext0 ''guide/tagged/group.yml'' None =
     Inl (UnparsedYAML ''guide/tagged/group.yml''
            [(YStr ''identifiers'', YDict [(YStr ''cce'', YStr ''27445-6'')])])"
  proof -
    have l: "open_and_macro_expand ext0 ''guide/tagged/group.yml'' None =
               Inr (Some tagged_group_doc)"
      by code_simp
    have q: "present tagged_group_doc [''title'', ''description'']" by code_simp
    have w: "check_warnings (get_or tagged_group_doc ''warnings'' (YList [])) = Inr ()"
      by code_simp
    have u: "unrecognized group_keys tagged_group_doc =
               [(YStr ''identifiers'', YDict [(YStr ''cce'', YStr ''27445-6'')])]"
      by code_simp
    have "Group_from_yaml ext0 ''guide/tagged/group.yml'' None =
            (if unrecognized group_keys tagged_group_doc \<noteq> []
             then Inl (UnparsedYAML ''guide/tagged/group.yml''
                         (unrecognized group_keys tagged_group_doc))
             else Inr (Some (parsed_group ''guide/tagged/group.yml'' tagged_group_doc)))"
      using leftover_keys_rejected[where ext = ext0 and f = "''guide/tagged/group.yml''"
          and env = None and d = tagged_group_doc] l q w by blast
    then show ?thesis by (simp add: u)
  qed
  have r: "Rule_from_yaml ext0 ''guide/services/sshd/rule.yml'' None =
             Inr (Some example_rule)"
  proof -
    have l: "open_and_macro_expand ext0 ''guide/services/sshd/rule.yml'' None =
               Inr (Some rule_doc)"
      by code_simp
    have q: "present rule_doc [''title'', ''description'', ''rationale'', ''severity'']"
      by code_simp
    have w: "check_warnings (get_or rule_doc ''warnings'' (YList [])) = Inr ()"
      by code_simp
    have u: "unrecognized rule_keys rule_doc = []" by code_simp
    have e: "parsed_rule ext0 ''guide/services/sshd/rule.yml'' rule_doc = example_rule"
      by code_simp
    have i: "validate_identifiers ext0 example_rule ''guide/services/sshd/rule.yml'' = Inr ()"
      by code_simp
    have j: "validate_references example_rule ''guide/services/sshd/rule.yml'' = Inr ()"
      by code_simp
    have "Rule_from_yaml ext0 ''guide/services/sshd/rule.yml'' None =
        (if unrecognized rule_keys rule_doc \<noteq> []
         then Inl (UnparsedYAML ''guide/services/sshd/rule.yml''
                     (unrecognized rule_keys rule_doc))
         else bind_err (validate_identifiers ext0
                          (parsed_rule ext0 ''guide/services/sshd/rule.yml'' rule_doc)
                          ''guide/services/sshd/rule.yml'') (\<lambda>_.
              bind_err (validate_references
                          (parsed_rule ext0 ''guide/services/sshd/rule.yml'' rule_doc)
                          ''guide/services/sshd/rule.yml'') (\<lambda>_.
              Inr (Some (parsed_rule ext0 ''guide/services/sshd/rule.yml'' rule_doc)))))"
      using leftover_keys_rejected[where ext = ext0
          and f = "''guide/services/sshd/rule.yml''" and env = None and d = rule_doc]
        l q w by blast
    then show ?thesis by (simp add: u e i j)
  qed
  have b: "Benchmark_from_yaml ext0 ''guide/benchmark.yml'' ''product-name'' None =
             Inr (Some example_benchmark)"
  proof -
    have l: "open_and_macro_expand ext0 ''guide/benchmark.yml'' None =
               Inr (Some benchmark_doc)"
      by code_simp
    have q: "present benchmark_doc
               [''title'', ''status'', ''description'', ''front-matter'', ''rear-matter'',
                ''version'']"
      by code_simp
    have n: "dict_get benchmark_doc ''notice'' =
               Some (YDict [(YStr ''id'', YStr ''terms''),
                            (YStr ''description'', YStr ''Do not rely'')])"
      by code_simp
    have m: "present [(YStr ''id'', YStr ''terms''),
                      (YStr ''description'', YStr ''Do not rely'')] [''id'', ''description'']"
      by code_simp
    have k: "unrecognized [''id'', ''description'']
               [(YStr ''id'', YStr ''terms''),
                (YStr ''description'', YStr ''Do not rely'')] = []"
      by code_simp
    have u: "unrecognized benchmark_keys benchmark_doc = []" by code_simp
    have e: "parsed_benchmark ext0 ''product-name'' benchmark_doc
               [(YStr ''id'', YStr ''terms''),
                (YStr ''description'', YStr ''Do not rely'')] [] = example_benchmark"
      by code_simp
    have "Benchmark_from_yaml ext0 ''guide/benchmark.yml'' ''product-name'' None =
        (if unrecognized benchmark_keys benchmark_doc \<noteq> []
         then Inl (UnparsedYAML ''guide/benchmark.yml''
                     (unrecognized benchmark_keys benchmark_doc))
         else (case None :: ydict option of
                 None \<Rightarrow>
                   Inr (Some (parsed_benchmark ext0 ''product-name'' benchmark_doc
                          [(YStr ''id'', YStr ''terms''),
                           (YStr ''description'', YStr ''Do not rely'')] []))
               | Some py \<Rightarrow>
                   if py = []
                   then Inr (Some (parsed_benchmark ext0 ''product-name'' benchmark_doc
                          [(YStr ''id'', YStr ''terms''),
                           (YStr ''description'', YStr ''Do not rely'')] []))
                   else bind_err (product_cpes ext0 py) (\<lambda>cpes.
                          Inr (Some (parsed_benchmark ext0 ''product-name'' benchmark_doc
                            [(YStr ''id'', YStr ''terms''),
                             (YStr ''description'', YStr ''Do not rely'')] cpes)))))"
      using leftover_keys_rejected[where ext = ext0 and f = "''guide/benchmark.yml''"
          and env = None and d = benchmark_doc and ident = "''product-name''"
          and notice = "[(YStr ''id'', YStr ''terms''),
                         (YStr ''description'', YStr ''Do not rely'')]"]
        l q n m k by blast
    then show ?thesis by (simp add: u e)
  qed
  from p t v g h r b show ?thesis by simp
qed

theorem leftover_keys_counterexample:
  "open_and_macro_expand ext0 ''guide/services/blank.rule'' None =
     Inr (Some blank_rule_doc) \<and>
   present blank_rule_doc [''title'', ''description'', ''rationale'', ''severity''] \<and>
   unrecognized rule_keys blank_rule_doc = [] \<and>
   Rule_from_yaml ext0 ''guide/services/blank.rule'' None =
     Inl (IdentifierEmpty (YStr ''cce'') ''guide/services/blank.rule'') \<and>
   open_and_expand ext0 ''guide/services/two.var'' None = Inr (Some two_warnings_doc) \<and>
   unrecognized value_keys two_warnings_doc = [(YStr ''interactiv'', YStr ''true'')] \<and>
   Value_from_yaml ext0 ''guide/services/two.var'' None = Inl WarningNotSinglePair"
  by code_simp

end
